theory Spec2Isabelle
  imports Main "HOL-Library.Word"
begin

unbundle bit_operations_syntax

section \<open>Aspeed SMC/FMC controller (hw/ssi/aspeed\_smc.c)\<close>

subsection \<open>Register indices and bit fields\<close>

text \<open>
  Register indices are word indices into \<open>regs\<close> (byte offset divided by four), as the
  \<open>R_*\<close> macros of the source define them.
\<close>

definition R_CONF :: nat where "R_CONF = 0x00 div 4"
definition CONF_ENABLE_W0 :: nat where "CONF_ENABLE_W0 = 16"
definition CONF_FLASH_TYPE0 :: nat where "CONF_FLASH_TYPE0 = 0"
definition CONF_FLASH_TYPE1 :: nat where "CONF_FLASH_TYPE1 = 2"
definition CONF_FLASH_TYPE2 :: nat where "CONF_FLASH_TYPE2 = 4"
definition CONF_FLASH_TYPE_SPI :: "32 word" where "CONF_FLASH_TYPE_SPI = 0x2"

definition R_CE_CTRL :: nat where "R_CE_CTRL = 0x04 div 4"
definition CTRL_EXTENDED0 :: nat where "CTRL_EXTENDED0 = 0"

definition R_INTR_CTRL :: nat where "R_INTR_CTRL = 0x08 div 4"
definition INTR_CTRL_DMA_STATUS :: "32 word" where "INTR_CTRL_DMA_STATUS = push_bit 11 1"
definition INTR_CTRL_DMA_EN :: "32 word" where "INTR_CTRL_DMA_EN = push_bit 3 1"

definition R_CTRL0 :: nat where "R_CTRL0 = 0x10 div 4"
definition CTRL_IO_DUAL_ADDR_DATA :: "32 word" where "CTRL_IO_DUAL_ADDR_DATA = push_bit 28 1"
definition CTRL_CMD_SHIFT :: nat where "CTRL_CMD_SHIFT = 16"
definition CTRL_CMD_MASK :: "32 word" where "CTRL_CMD_MASK = 0xff"
definition CTRL_DUMMY_HIGH_SHIFT :: nat where "CTRL_DUMMY_HIGH_SHIFT = 14"
definition CTRL_AST2400_SPI_4BYTE :: "32 word" where "CTRL_AST2400_SPI_4BYTE = push_bit 13 1"
definition CE_CTRL_CLOCK_FREQ_SHIFT :: nat where "CE_CTRL_CLOCK_FREQ_SHIFT = 8"
definition CE_CTRL_CLOCK_FREQ_MASK :: "32 word" where "CE_CTRL_CLOCK_FREQ_MASK = 0xf"
definition CE_CTRL_CLOCK_FREQ :: "32 word \<Rightarrow> 32 word" where
  "CE_CTRL_CLOCK_FREQ d = push_bit CE_CTRL_CLOCK_FREQ_SHIFT (d AND CE_CTRL_CLOCK_FREQ_MASK)"
definition CTRL_DUMMY_LOW_SHIFT :: nat where "CTRL_DUMMY_LOW_SHIFT = 6"
definition CTRL_CE_STOP_ACTIVE :: "32 word" where "CTRL_CE_STOP_ACTIVE = push_bit 2 1"
definition CTRL_CMD_MODE_MASK :: "32 word" where "CTRL_CMD_MODE_MASK = 0x3"
definition CTRL_READMODE :: "32 word" where "CTRL_READMODE = 0x0"
definition CTRL_FREADMODE :: "32 word" where "CTRL_FREADMODE = 0x1"
definition CTRL_WRITEMODE :: "32 word" where "CTRL_WRITEMODE = 0x2"
definition CTRL_USERMODE :: "32 word" where "CTRL_USERMODE = 0x3"

definition R_SEG_ADDR0 :: nat where "R_SEG_ADDR0 = 0x30 div 4"
definition SEG_END_SHIFT :: nat where "SEG_END_SHIFT = 24"
definition SEG_START_SHIFT :: nat where "SEG_START_SHIFT = 16"

definition R_DUMMY_DATA :: nat where "R_DUMMY_DATA = 0x54 div 4"

definition R_DMA_CTRL :: nat where "R_DMA_CTRL = 0x80 div 4"
definition DMA_CTRL_DELAY_MASK :: "32 word" where "DMA_CTRL_DELAY_MASK = 0xf"
definition DMA_CTRL_DELAY_SHIFT :: nat where "DMA_CTRL_DELAY_SHIFT = 8"
definition DMA_CTRL_FREQ_MASK :: "32 word" where "DMA_CTRL_FREQ_MASK = 0xf"
definition DMA_CTRL_FREQ_SHIFT :: nat where "DMA_CTRL_FREQ_SHIFT = 4"
definition DMA_CTRL_CALIB :: "32 word" where "DMA_CTRL_CALIB = push_bit 3 1"
definition DMA_CTRL_CKSUM :: "32 word" where "DMA_CTRL_CKSUM = push_bit 2 1"
definition DMA_CTRL_WRITE :: "32 word" where "DMA_CTRL_WRITE = push_bit 1 1"
definition DMA_CTRL_ENABLE :: "32 word" where "DMA_CTRL_ENABLE = push_bit 0 1"

definition R_DMA_FLASH_ADDR :: nat where "R_DMA_FLASH_ADDR = 0x84 div 4"
definition R_DMA_DRAM_ADDR :: nat where "R_DMA_DRAM_ADDR = 0x88 div 4"
definition R_DMA_LEN :: nat where "R_DMA_LEN = 0x8C div 4"
definition R_DMA_CHECKSUM :: nat where "R_DMA_CHECKSUM = 0x90 div 4"
definition R_TIMINGS :: nat where "R_TIMINGS = 0x94 div 4"

definition R_SPI_CONF :: nat where "R_SPI_CONF = 0x00 div 4"
definition SPI_CONF_ENABLE_W0 :: nat where "SPI_CONF_ENABLE_W0 = 0"
definition R_SPI_CTRL0 :: nat where "R_SPI_CTRL0 = 0x4 div 4"
definition R_SPI_TIMINGS :: nat where "R_SPI_TIMINGS = 0x14 div 4"

definition ASPEED_SMC_R_SPI_MAX :: nat where "ASPEED_SMC_R_SPI_MAX = 0x20 div 4"
definition ASPEED_SMC_R_SMC_MAX :: nat where "ASPEED_SMC_R_SMC_MAX = 0x20 div 4"

text \<open>
  Modelled from the spec: \<open>ASPEED_SMC_R_MAX\<close>, the length of the \<open>regs\<close> array, is
  declared in the header hw/ssi/aspeed\_smc.h. The register window has offsets up to
  0x94 (R\_TIMINGS), and the header gives the array 0x100 / 4 words.
\<close>

definition ASPEED_SMC_R_MAX :: nat where "ASPEED_SMC_R_MAX = 0x100 div 4"

definition SPI_OP_READ :: "32 word" where "SPI_OP_READ = 0x03"
definition SNOOP_OFF :: "8 word" where "SNOOP_OFF = 0xFF"
definition SNOOP_START :: "8 word" where "SNOOP_START = 0x0"

definition MiB :: "32 word" where "MiB = push_bit 20 1"
definition AST2600_SEG_ADDR_MASK :: "32 word" where "AST2600_SEG_ADDR_MASK = 0x0ff00000"

subsection \<open>Segments and controller descriptors\<close>

text \<open>
  \<open>AspeedSegments\<close> is \<open>{ hwaddr addr; uint32_t size; }\<close>: a 64-bit address
  and a 32-bit size.
\<close>

type_synonym hwaddr = "64 word"

record AspeedSegments =
  seg_addr :: hwaddr
  seg_size :: "32 word"

definition Seg :: "hwaddr \<Rightarrow> 32 word \<Rightarrow> AspeedSegments" where
  "Seg a n = \<lparr> seg_addr = a, seg_size = n \<rparr>"

text \<open>
  The source identifies a default segment table by the address of the array
  (\<open>s->ctrl->segments == aspeed_segments_ast2500_spi1\<close>); the model names each table.
\<close>

datatype segments_table =
    aspeed_segments_legacy
  | aspeed_segments_fmc
  | aspeed_segments_spi
  | aspeed_segments_ast2500_fmc
  | aspeed_segments_ast2500_spi1
  | aspeed_segments_ast2500_spi2
  | aspeed_segments_ast2600_fmc
  | aspeed_segments_ast2600_spi1
  | aspeed_segments_ast2600_spi2

fun segments_entries :: "segments_table \<Rightarrow> AspeedSegments list" where
  "segments_entries aspeed_segments_legacy = [Seg 0x10000000 (32 * 1024 * 1024)]"
| "segments_entries aspeed_segments_fmc =
     [Seg 0x20000000 (64 * 1024 * 1024), Seg 0x24000000 (32 * 1024 * 1024),
      Seg 0x26000000 (32 * 1024 * 1024), Seg 0x28000000 (32 * 1024 * 1024),
      Seg 0x2A000000 (32 * 1024 * 1024)]"
| "segments_entries aspeed_segments_spi = [Seg 0x30000000 (64 * 1024 * 1024)]"
| "segments_entries aspeed_segments_ast2500_fmc =
     [Seg 0x20000000 (128 * 1024 * 1024), Seg 0x28000000 (32 * 1024 * 1024),
      Seg 0x2A000000 (32 * 1024 * 1024)]"
| "segments_entries aspeed_segments_ast2500_spi1 =
     [Seg 0x30000000 (32 * 1024 * 1024), Seg 0x32000000 (96 * 1024 * 1024)]"
| "segments_entries aspeed_segments_ast2500_spi2 =
     [Seg 0x38000000 (32 * 1024 * 1024), Seg 0x3A000000 (96 * 1024 * 1024)]"
| "segments_entries aspeed_segments_ast2600_fmc =
     [Seg 0x0 (128 * MiB), Seg 0x0 0, Seg 0x0 0]"
| "segments_entries aspeed_segments_ast2600_spi1 =
     [Seg 0x0 (128 * MiB), Seg 0x0 0]"
| "segments_entries aspeed_segments_ast2600_spi2 =
     [Seg 0x0 (128 * MiB), Seg 0x0 0, Seg 0x0 0]"

text \<open>
  The two function pointers \<open>segment_to_reg\<close> and \<open>reg_to_segment\<close> of a descriptor
  always come as a pair; the model stores which pair.
\<close>

datatype segment_codec = Codec_2400 | Codec_2600

record AspeedSMCController =
  name :: string
  r_conf :: nat
  r_ce_ctrl :: nat
  r_ctrl0 :: nat
  r_timings :: nat
  conf_enable_w0 :: nat
  max_slaves :: nat
  segments :: segments_table
  flash_window_base :: hwaddr
  flash_window_size :: "32 word"
  has_dma :: bool
  dma_flash_mask :: hwaddr
  dma_dram_mask :: hwaddr
  nregs :: nat
  codec :: segment_codec

definition smc_ast2400 :: AspeedSMCController where
  "smc_ast2400 = \<lparr> name = ''aspeed.smc-ast2400'', r_conf = R_CONF, r_ce_ctrl = R_CE_CTRL,
     r_ctrl0 = R_CTRL0, r_timings = R_TIMINGS, conf_enable_w0 = CONF_ENABLE_W0,
     max_slaves = 5, segments = aspeed_segments_legacy,
     flash_window_base = 0x10000000, flash_window_size = 0x6000000,
     has_dma = False, dma_flash_mask = 0, dma_dram_mask = 0,
     nregs = ASPEED_SMC_R_SMC_MAX, codec = Codec_2400 \<rparr>"

definition fmc_ast2400 :: AspeedSMCController where
  "fmc_ast2400 = \<lparr> name = ''aspeed.fmc-ast2400'', r_conf = R_CONF, r_ce_ctrl = R_CE_CTRL,
     r_ctrl0 = R_CTRL0, r_timings = R_TIMINGS, conf_enable_w0 = CONF_ENABLE_W0,
     max_slaves = 5, segments = aspeed_segments_fmc,
     flash_window_base = 0x20000000, flash_window_size = 0x10000000,
     has_dma = True, dma_flash_mask = 0x0FFFFFFC, dma_dram_mask = 0x1FFFFFFC,
     nregs = ASPEED_SMC_R_MAX, codec = Codec_2400 \<rparr>"

definition spi1_ast2400 :: AspeedSMCController where
  "spi1_ast2400 = \<lparr> name = ''aspeed.spi1-ast2400'', r_conf = R_SPI_CONF, r_ce_ctrl = 0xff,
     r_ctrl0 = R_SPI_CTRL0, r_timings = R_SPI_TIMINGS, conf_enable_w0 = SPI_CONF_ENABLE_W0,
     max_slaves = 1, segments = aspeed_segments_spi,
     flash_window_base = 0x30000000, flash_window_size = 0x10000000,
     has_dma = False, dma_flash_mask = 0, dma_dram_mask = 0,
     nregs = ASPEED_SMC_R_SPI_MAX, codec = Codec_2400 \<rparr>"

definition fmc_ast2500 :: AspeedSMCController where
  "fmc_ast2500 = \<lparr> name = ''aspeed.fmc-ast2500'', r_conf = R_CONF, r_ce_ctrl = R_CE_CTRL,
     r_ctrl0 = R_CTRL0, r_timings = R_TIMINGS, conf_enable_w0 = CONF_ENABLE_W0,
     max_slaves = 3, segments = aspeed_segments_ast2500_fmc,
     flash_window_base = 0x20000000, flash_window_size = 0x10000000,
     has_dma = True, dma_flash_mask = 0x0FFFFFFC, dma_dram_mask = 0x3FFFFFFC,
     nregs = ASPEED_SMC_R_MAX, codec = Codec_2400 \<rparr>"

definition spi1_ast2500 :: AspeedSMCController where
  "spi1_ast2500 = \<lparr> name = ''aspeed.spi1-ast2500'', r_conf = R_CONF, r_ce_ctrl = R_CE_CTRL,
     r_ctrl0 = R_CTRL0, r_timings = R_TIMINGS, conf_enable_w0 = CONF_ENABLE_W0,
     max_slaves = 2, segments = aspeed_segments_ast2500_spi1,
     flash_window_base = 0x30000000, flash_window_size = 0x8000000,
     has_dma = False, dma_flash_mask = 0, dma_dram_mask = 0,
     nregs = ASPEED_SMC_R_MAX, codec = Codec_2400 \<rparr>"

definition spi2_ast2500 :: AspeedSMCController where
  "spi2_ast2500 = \<lparr> name = ''aspeed.spi2-ast2500'', r_conf = R_CONF, r_ce_ctrl = R_CE_CTRL,
     r_ctrl0 = R_CTRL0, r_timings = R_TIMINGS, conf_enable_w0 = CONF_ENABLE_W0,
     max_slaves = 2, segments = aspeed_segments_ast2500_spi2,
     flash_window_base = 0x38000000, flash_window_size = 0x8000000,
     has_dma = False, dma_flash_mask = 0, dma_dram_mask = 0,
     nregs = ASPEED_SMC_R_MAX, codec = Codec_2400 \<rparr>"

definition fmc_ast2600 :: AspeedSMCController where
  "fmc_ast2600 = \<lparr> name = ''aspeed.fmc-ast2600'', r_conf = R_CONF, r_ce_ctrl = R_CE_CTRL,
     r_ctrl0 = R_CTRL0, r_timings = R_TIMINGS, conf_enable_w0 = CONF_ENABLE_W0,
     max_slaves = 3, segments = aspeed_segments_ast2600_fmc,
     flash_window_base = 0x20000000, flash_window_size = 0x10000000,
     has_dma = True, dma_flash_mask = 0, dma_dram_mask = 0,
     nregs = ASPEED_SMC_R_MAX, codec = Codec_2600 \<rparr>"

definition spi1_ast2600 :: AspeedSMCController where
  "spi1_ast2600 = \<lparr> name = ''aspeed.spi1-ast2600'', r_conf = R_CONF, r_ce_ctrl = R_CE_CTRL,
     r_ctrl0 = R_CTRL0, r_timings = R_TIMINGS, conf_enable_w0 = CONF_ENABLE_W0,
     max_slaves = 2, segments = aspeed_segments_ast2600_spi1,
     flash_window_base = 0x30000000, flash_window_size = 0x10000000,
     has_dma = False, dma_flash_mask = 0, dma_dram_mask = 0,
     nregs = ASPEED_SMC_R_MAX, codec = Codec_2600 \<rparr>"

definition spi2_ast2600 :: AspeedSMCController where
  "spi2_ast2600 = \<lparr> name = ''aspeed.spi2-ast2600'', r_conf = R_CONF, r_ce_ctrl = R_CE_CTRL,
     r_ctrl0 = R_CTRL0, r_timings = R_TIMINGS, conf_enable_w0 = CONF_ENABLE_W0,
     max_slaves = 3, segments = aspeed_segments_ast2600_spi2,
     flash_window_base = 0x50000000, flash_window_size = 0x10000000,
     has_dma = False, dma_flash_mask = 0, dma_dram_mask = 0,
     nregs = ASPEED_SMC_R_MAX, codec = Codec_2600 \<rparr>"

definition controllers :: "AspeedSMCController list" where
  "controllers = [smc_ast2400, fmc_ast2400, spi1_ast2400, fmc_ast2500, spi1_ast2500,
     spi2_ast2500, fmc_ast2600, spi1_ast2600, spi2_ast2600]"

subsection \<open>Segment register encodings\<close>

text \<open>
  AST2400 and AST2500: 8 MiB units, absolute addresses. The arithmetic on
  \<open>seg->addr\<close> is 64-bit and the result is truncated into the 32-bit register.
\<close>

definition aspeed_smc_segment_to_reg :: "AspeedSegments \<Rightarrow> 32 word" where
  "aspeed_smc_segment_to_reg seg =
     (let reg = (0 :: 32 word);
          reg = reg OR ucast (push_bit SEG_START_SHIFT (drop_bit 23 (seg_addr seg) AND 0xff));
          reg = reg OR ucast (push_bit SEG_END_SHIFT
                  (drop_bit 23 (seg_addr seg + ucast (seg_size seg)) AND 0xff))
      in reg)"

definition aspeed_smc_reg_to_segment :: "32 word \<Rightarrow> AspeedSegments" where
  "aspeed_smc_reg_to_segment reg =
     (let a = (ucast (push_bit 23 (drop_bit SEG_START_SHIFT reg AND 0xff)) :: hwaddr);
          n = (ucast ((ucast (push_bit 23 (drop_bit SEG_END_SHIFT reg AND 0xff)) :: hwaddr) - a)
                 :: 32 word)
      in \<lparr> seg_addr = a, seg_size = n \<rparr>)"

text \<open>AST2600: 1 MiB units, offsets in the controller window; a nil size encodes as 0.\<close>

definition aspeed_2600_smc_segment_to_reg :: "AspeedSegments \<Rightarrow> 32 word" where
  "aspeed_2600_smc_segment_to_reg seg =
     (if seg_size seg = 0 then 0
      else
        let reg = (0 :: 32 word);
            reg = reg OR ucast (drop_bit 16 (seg_addr seg AND ucast AST2600_SEG_ADDR_MASK));
            reg = reg OR ucast ((seg_addr seg + ucast (seg_size seg) - 1)
                                  AND ucast AST2600_SEG_ADDR_MASK)
        in reg)"

definition aspeed_2600_smc_reg_to_segment ::
    "AspeedSMCController \<Rightarrow> 32 word \<Rightarrow> AspeedSegments" where
  "aspeed_2600_smc_reg_to_segment c reg =
     (let start_offset = push_bit 16 reg AND AST2600_SEG_ADDR_MASK;
          end_offset = reg AND AST2600_SEG_ADDR_MASK
      in \<lparr> seg_addr = flash_window_base c + ucast start_offset,
           seg_size = end_offset + MiB - start_offset \<rparr>)"

definition segment_to_reg :: "AspeedSMCController \<Rightarrow> AspeedSegments \<Rightarrow> 32 word" where
  "segment_to_reg c seg =
     (case codec c of
        Codec_2400 \<Rightarrow> aspeed_smc_segment_to_reg seg
      | Codec_2600 \<Rightarrow> aspeed_2600_smc_segment_to_reg seg)"

definition reg_to_segment :: "AspeedSMCController \<Rightarrow> 32 word \<Rightarrow> AspeedSegments" where
  "reg_to_segment c reg =
     (case codec c of
        Codec_2400 \<Rightarrow> aspeed_smc_reg_to_segment reg
      | Codec_2600 \<Rightarrow> aspeed_2600_smc_reg_to_segment c reg)"


subsection \<open>Device state and collaborators\<close>

datatype log_mask = LOG_GUEST_ERROR | LOG_UNIMP

text \<open>
  Executions of the C code that have no defined result are values of the model: a read
  past the end of a default segment table or of the \<open>cs_lines\<close> array, an integer
  division by zero, a failed \<open>g_assert_not_reached\<close>, and a DMA loop that never exits.
\<close>

datatype fault =
    SegmentTableOverrun
  | CsLineOverrun
  | DivisionByZero
  | AssertNotReached
  | NoReturn

definition seq :: "fault + 'a \<Rightarrow> ('a \<Rightarrow> fault + 'b) \<Rightarrow> fault + 'b" where
  "seq r f = (case r of Inl e \<Rightarrow> Inl e | Inr x \<Rightarrow> f x)"

text \<open>
  Modelled from the spec: the memory-region collaborator (``resizable/relocatable
  sub-regions''). A sub-region is its offset in the flash window, its size and whether
  it is enabled.
\<close>

record MemoryRegion =
  mr_addr :: hwaddr
  mr_size :: "64 word"
  mr_enabled :: bool

record AspeedSMCFlash =
  fl_size :: "32 word"
  mmio :: MemoryRegion

text \<open>
  Modelled from the spec: the SPI bus collaborator, \<open>transfer(bus, byte_out) \<rightarrow> byte_in\<close>.
  The bus keeps every value passed to \<open>ssi_transfer\<close>, oldest first; the attached
  slave answers as a function of that history.
\<close>

record SSIBus =
  ssi_sent :: "32 word list"
  ssi_slave :: "32 word list \<Rightarrow> 32 word"

text \<open>
  Modelled from the spec: the address-space collaborator,
  \<open>load_u32_le(as, addr) \<rightarrow> (word, result)\<close> and
  \<open>store_u32_le(as, addr, word) \<rightarrow> result\<close>. An address space is a partial
  memory of 32-bit words; \<open>None\<close> is a transaction error. DMA addresses come from
  32-bit registers, so 32-bit addresses suffice.
\<close>

type_synonym AddressSpace = "32 word \<Rightarrow> 32 word option"

definition address_space_ldl_le :: "AddressSpace \<Rightarrow> 32 word \<Rightarrow> 32 word option" where
  "address_space_ldl_le as a = as a"

definition address_space_stl_le :: "AddressSpace \<Rightarrow> 32 word \<Rightarrow> 32 word \<Rightarrow> AddressSpace option" where
  "address_space_stl_le as a v = (if as a = None then None else Some (as(a := Some v)))"

record AspeedSMCState =
  ctrl :: AspeedSMCController
  irq :: bool
  num_cs :: nat
  cs_lines :: "nat \<Rightarrow> bool"
  inject_failure :: bool
  spi :: SSIBus
  regs :: "nat \<Rightarrow> 32 word"
  sdram_base :: "64 word"
  flash_as :: AddressSpace
  dram_as :: AddressSpace
  flashes :: "nat \<Rightarrow> AspeedSMCFlash"
  snoop_index :: "8 word"
  snoop_dummies :: "8 word"
  qemu_log :: "(log_mask \<times> string) list"

definition qemu_log_mask :: "log_mask \<Rightarrow> string \<Rightarrow> AspeedSMCState \<Rightarrow> AspeedSMCState" where
  "qemu_log_mask m msg s = s\<lparr> qemu_log := qemu_log s @ [(m, msg)] \<rparr>"

definition ssi_transfer :: "32 word \<Rightarrow> AspeedSMCState \<Rightarrow> 32 word \<times> AspeedSMCState" where
  "ssi_transfer v s =
     (let h = ssi_sent (spi s) @ [v]
      in (ssi_slave (spi s) h, s\<lparr> spi := (spi s)\<lparr> ssi_sent := h \<rparr> \<rparr>))"

definition set_reg :: "nat \<Rightarrow> 32 word \<Rightarrow> AspeedSMCState \<Rightarrow> AspeedSMCState" where
  "set_reg i v s = s\<lparr> regs := (regs s)(i := v) \<rparr>"

definition segment_at :: "segments_table \<Rightarrow> nat \<Rightarrow> AspeedSegments option" where
  "segment_at t i =
     (if i < length (segments_entries t) then Some (segments_entries t ! i) else None)"

subsection \<open>Segment update\<close>

fun flash_overlap_loop ::
    "nat list \<Rightarrow> AspeedSMCState \<Rightarrow> AspeedSegments \<Rightarrow> nat \<Rightarrow> bool \<times> AspeedSMCState" where
  "flash_overlap_loop [] s new cs = (False, s)"
| "flash_overlap_loop (i # rest) s new cs =
     (if i = cs then flash_overlap_loop rest s new cs
      else
        let seg = reg_to_segment (ctrl s) (regs s (R_SEG_ADDR0 + i))
        in if seg_addr new + ucast (seg_size new) > seg_addr seg
              \<and> seg_addr new < seg_addr seg + ucast (seg_size seg)
           then (True, qemu_log_mask LOG_GUEST_ERROR ''new segment overlaps'' s)
           else flash_overlap_loop rest s new cs)"

definition aspeed_smc_flash_overlap ::
    "AspeedSMCState \<Rightarrow> AspeedSegments \<Rightarrow> nat \<Rightarrow> bool \<times> AspeedSMCState" where
  "aspeed_smc_flash_overlap s new cs = flash_overlap_loop [0 ..< max_slaves (ctrl s)] s new cs"

text \<open>
  \<open>aspeed_smc_flash_set_segment\<close> from the window check to its end: the segment and
  the register value are the ones left by the two read-only fix-ups.
\<close>

definition set_segment_commit ::
    "AspeedSMCState \<Rightarrow> nat \<Rightarrow> AspeedSegments \<Rightarrow> 32 word \<Rightarrow> AspeedSMCState" where
  "set_segment_commit s cs seg new =
     (let c = ctrl s in
      if seg_addr seg + ucast (seg_size seg) \<le> flash_window_base c
         \<or> seg_addr seg > flash_window_base c + ucast (flash_window_size c)
      then qemu_log_mask LOG_GUEST_ERROR ''new segment is invalid'' s
      else
        let s = (if seg_size seg \<noteq> 0
                    \<and> seg_addr seg mod ucast (seg_size seg) \<noteq> 0
                 then qemu_log_mask LOG_GUEST_ERROR ''new segment is not aligned'' s
                 else s);
            s = snd (aspeed_smc_flash_overlap s seg cs);
            fl = flashes s cs;
            fl = fl\<lparr> mmio := \<lparr> mr_addr = seg_addr seg - flash_window_base c,
                                mr_size = ucast (seg_size seg),
                                mr_enabled = True \<rparr> \<rparr>;
            s = s\<lparr> flashes := (flashes s)(cs := fl) \<rparr>
        in set_reg (R_SEG_ADDR0 + cs) new s)"

definition aspeed_smc_flash_set_segment ::
    "AspeedSMCState \<Rightarrow> nat \<Rightarrow> 32 word \<Rightarrow> fault + AspeedSMCState" where
  "aspeed_smc_flash_set_segment s cs new =
     (let c = ctrl s;
          seg = reg_to_segment c new;
          cs0 = (cs = 0 \<and> seg_addr seg \<noteq> flash_window_base c);
          s = (if cs0
               then qemu_log_mask LOG_GUEST_ERROR ''Tried to change CS0 start address'' s
               else s);
          seg = (if cs0 then seg\<lparr> seg_addr := flash_window_base c \<rparr> else seg);
          new = (if cs0 then segment_to_reg c seg else new)
      in if (segments c = aspeed_segments_ast2500_spi1
              \<or> segments c = aspeed_segments_ast2500_spi2)
            \<and> cs = max_slaves c
         then
           (case segment_at (segments c) cs of
              None \<Rightarrow> Inl SegmentTableOverrun
            | Some d \<Rightarrow>
                let top = (seg_addr seg + ucast (seg_size seg)
                             \<noteq> seg_addr d + ucast (seg_size d));
                    s = (if top
                         then qemu_log_mask LOG_GUEST_ERROR ''Tried to change end address'' s
                         else s);
                    seg = (if top
                           then seg\<lparr> seg_size :=
                                  ucast (seg_addr d + ucast (seg_size d) - seg_addr seg) \<rparr>
                           else seg);
                    new = (if top then segment_to_reg c seg else new)
                in Inr (set_segment_commit s cs seg new))
         else Inr (set_segment_commit s cs seg new))"


subsection \<open>Flash window accesses\<close>

text \<open>
  A flash is named by its chip-select number \<open>fl\<close> (the source's \<open>fl->id\<close>); its
  controller is the state passed along. The copies \<open>s->r_conf\<close>, \<open>s->r_ce_ctrl\<close>,
  \<open>s->r_ctrl0\<close>, \<open>s->r_timings\<close> and \<open>s->conf_enable_w0\<close> that realize takes from
  the descriptor are read from the descriptor.
\<close>

definition aspeed_smc_flash_mode :: "AspeedSMCState \<Rightarrow> nat \<Rightarrow> 32 word" where
  "aspeed_smc_flash_mode s fl = regs s (r_ctrl0 (ctrl s) + fl) AND CTRL_CMD_MODE_MASK"

definition aspeed_smc_is_writable :: "AspeedSMCState \<Rightarrow> nat \<Rightarrow> bool" where
  "aspeed_smc_is_writable s fl =
     (regs s (r_conf (ctrl s)) AND push_bit (conf_enable_w0 (ctrl s) + fl) 1 \<noteq> 0)"

definition aspeed_smc_flash_cmd :: "AspeedSMCState \<Rightarrow> nat \<Rightarrow> 32 word \<times> AspeedSMCState" where
  "aspeed_smc_flash_cmd s fl =
     (let cmd = drop_bit CTRL_CMD_SHIFT (regs s (r_ctrl0 (ctrl s) + fl)) AND CTRL_CMD_MASK;
          cmd = (if aspeed_smc_flash_mode s fl = CTRL_READMODE then SPI_OP_READ else cmd);
          s = (if cmd = 0
               then qemu_log_mask LOG_GUEST_ERROR ''no command defined for mode'' s
               else s)
      in (cmd, s))"

definition aspeed_smc_flash_is_4byte :: "AspeedSMCState \<Rightarrow> nat \<Rightarrow> bool" where
  "aspeed_smc_flash_is_4byte s fl =
     (if segments (ctrl s) = aspeed_segments_spi
      then regs s (r_ctrl0 (ctrl s)) AND CTRL_AST2400_SPI_4BYTE \<noteq> 0
      else regs s (r_ce_ctrl (ctrl s)) AND push_bit (CTRL_EXTENDED0 + fl) 1 \<noteq> 0)"

definition aspeed_smc_is_ce_stop_active :: "AspeedSMCState \<Rightarrow> nat \<Rightarrow> bool" where
  "aspeed_smc_is_ce_stop_active s fl =
     (regs s (r_ctrl0 (ctrl s) + fl) AND CTRL_CE_STOP_ACTIVE \<noteq> 0)"

text \<open>\<open>cs_lines\<close> is allocated with \<open>num_cs\<close> entries.\<close>

definition set_cs_line :: "nat \<Rightarrow> bool \<Rightarrow> AspeedSMCState \<Rightarrow> fault + AspeedSMCState" where
  "set_cs_line fl level s =
     (if fl < num_cs s then Inr (s\<lparr> cs_lines := (cs_lines s)(fl := level) \<rparr>)
      else Inl CsLineOverrun)"

definition aspeed_smc_flash_select :: "AspeedSMCState \<Rightarrow> nat \<Rightarrow> fault + AspeedSMCState" where
  "aspeed_smc_flash_select s fl =
     (let i = r_ctrl0 (ctrl s) + fl;
          s = set_reg i (regs s i AND NOT CTRL_CE_STOP_ACTIVE) s
      in set_cs_line fl (aspeed_smc_is_ce_stop_active s fl) s)"

definition aspeed_smc_flash_unselect :: "AspeedSMCState \<Rightarrow> nat \<Rightarrow> fault + AspeedSMCState" where
  "aspeed_smc_flash_unselect s fl =
     (let i = r_ctrl0 (ctrl s) + fl;
          s = set_reg i (regs s i OR CTRL_CE_STOP_ACTIVE) s
      in set_cs_line fl (aspeed_smc_is_ce_stop_active s fl) s)"

definition aspeed_smc_check_segment_addr ::
    "AspeedSMCState \<Rightarrow> nat \<Rightarrow> 32 word \<Rightarrow> fault + (32 word \<times> AspeedSMCState)" where
  "aspeed_smc_check_segment_addr s fl a =
     (let seg = reg_to_segment (ctrl s) (regs s (R_SEG_ADDR0 + fl))
      in if seg_size seg = 0 then Inl DivisionByZero
         else if a mod seg_size seg \<noteq> a
         then Inr (a mod seg_size seg,
                   qemu_log_mask LOG_GUEST_ERROR ''invalid address for segment'' s)
         else Inr (a, s))"

definition aspeed_smc_flash_dummies :: "AspeedSMCState \<Rightarrow> nat \<Rightarrow> nat" where
  "aspeed_smc_flash_dummies s fl =
     (let r = regs s (r_ctrl0 (ctrl s) + fl);
          dummy_high = drop_bit CTRL_DUMMY_HIGH_SHIFT r AND 0x1;
          dummy_low = drop_bit CTRL_DUMMY_LOW_SHIFT r AND 0x3;
          dummies = (push_bit 2 dummy_high OR dummy_low) * 8;
          dummies = (if r AND CTRL_IO_DUAL_ADDR_DATA \<noteq> 0 then dummies div 2 else dummies)
      in unat dummies)"

fun ssi_transfer_all :: "32 word list \<Rightarrow> AspeedSMCState \<Rightarrow> AspeedSMCState" where
  "ssi_transfer_all [] s = s"
| "ssi_transfer_all (v # vs) s = ssi_transfer_all vs (snd (ssi_transfer v s))"

definition aspeed_smc_flash_setup ::
    "AspeedSMCState \<Rightarrow> nat \<Rightarrow> 32 word \<Rightarrow> fault + AspeedSMCState" where
  "aspeed_smc_flash_setup s fl a =
     (let (cmd, s) = aspeed_smc_flash_cmd s fl
      in seq (aspeed_smc_check_segment_addr s fl a) (\<lambda>(a, s).
           let s = snd (ssi_transfer (cmd AND 0xff) s);
               s = (if aspeed_smc_flash_is_4byte s fl
                    then snd (ssi_transfer (drop_bit 24 a AND 0xff) s) else s);
               s = snd (ssi_transfer (drop_bit 16 a AND 0xff) s);
               s = snd (ssi_transfer (drop_bit 8 a AND 0xff) s);
               s = snd (ssi_transfer (a AND 0xff) s);
               s = (if aspeed_smc_flash_mode s fl = CTRL_FREADMODE
                    then ssi_transfer_all
                           (replicate (aspeed_smc_flash_dummies s fl)
                              (regs s R_DUMMY_DATA AND 0xff)) s
                    else s)
           in Inr s))"

definition flash_read_bytes :: "nat \<Rightarrow> AspeedSMCState \<Rightarrow> 64 word \<times> AspeedSMCState" where
  "flash_read_bytes n s =
     fold (\<lambda>i (ret, s). let (r, s) = ssi_transfer 0x0 s
                         in (ret OR ucast (push_bit (8 * i) r), s))
          [0 ..< n] (0, s)"

definition flash_write_bytes :: "64 word \<Rightarrow> nat \<Rightarrow> AspeedSMCState \<Rightarrow> AspeedSMCState" where
  "flash_write_bytes data n s =
     ssi_transfer_all (map (\<lambda>i. ucast (drop_bit (8 * i) data AND 0xff)) [0 ..< n]) s"

definition aspeed_smc_flash_read ::
    "AspeedSMCState \<Rightarrow> nat \<Rightarrow> hwaddr \<Rightarrow> nat \<Rightarrow> fault + (64 word \<times> AspeedSMCState)" where
  "aspeed_smc_flash_read s fl a n =
     (let mode = aspeed_smc_flash_mode s fl
      in if mode = CTRL_USERMODE then Inr (flash_read_bytes n s)
         else if mode = CTRL_READMODE \<or> mode = CTRL_FREADMODE then
           seq (aspeed_smc_flash_select s fl) (\<lambda>s.
           seq (aspeed_smc_flash_setup s fl (ucast a)) (\<lambda>s.
             let (ret, s) = flash_read_bytes n s
             in seq (aspeed_smc_flash_unselect s fl) (\<lambda>s. Inr (ret, s))))
         else Inr (0, qemu_log_mask LOG_GUEST_ERROR ''invalid flash mode'' s))"

definition aspeed_smc_num_dummies :: "8 word \<Rightarrow> int" where
  "aspeed_smc_num_dummies command =
     (if command \<in> {0x3, 0x2, 0xa2, 0x32, 0x13, 0x12, 0x34} then 0
      else if command \<in> {0xb, 0x3b, 0x6b, 0x3c, 0x6c} then 1
      else if command \<in> {0xbb, 0x0c, 0xbc} then 2
      else if command \<in> {0xeb, 0xec} then 4
      else - 1)"

fun snoop_dummy_loop :: "nat \<Rightarrow> AspeedSMCState \<Rightarrow> AspeedSMCState" where
  "snoop_dummy_loop 0 s = s"
| "snoop_dummy_loop (Suc n) s =
     snoop_dummy_loop n
       ((snd (ssi_transfer (regs s R_DUMMY_DATA AND 0xff) s))
          \<lparr> snoop_dummies := snoop_dummies s - 1 \<rparr>)"

definition aspeed_smc_do_snoop ::
    "AspeedSMCState \<Rightarrow> nat \<Rightarrow> 64 word \<Rightarrow> nat \<Rightarrow> bool \<times> AspeedSMCState" where
  "aspeed_smc_do_snoop s fl data n =
     (let addr_width = (if aspeed_smc_flash_is_4byte s fl then 4 else 3 :: nat)
      in if snoop_index s = SNOOP_OFF then (False, s)
         else if snoop_index s = SNOOP_START then
           (let cmd = (ucast (data AND 0xff) :: 8 word);
                ndummies = aspeed_smc_num_dummies cmd
            in if ndummies \<le> 0 then (False, s\<lparr> snoop_index := SNOOP_OFF \<rparr>)
               else
                 let s = s\<lparr> snoop_dummies := word_of_int (ndummies * 8) \<rparr>
                 in (False, s\<lparr> snoop_index := snoop_index s + word_of_nat n \<rparr>))
         else if unat (snoop_index s) \<ge> addr_width + 1 then
           (let s = snoop_dummy_loop (unat (snoop_dummies s)) s;
                s = (if snoop_dummies s = 0 then s\<lparr> snoop_index := SNOOP_OFF \<rparr>
                     else s\<lparr> snoop_index := snoop_index s + word_of_nat n \<rparr>)
            in (True, s))
         else (False, s\<lparr> snoop_index := snoop_index s + word_of_nat n \<rparr>))"

definition aspeed_smc_flash_write ::
    "AspeedSMCState \<Rightarrow> nat \<Rightarrow> hwaddr \<Rightarrow> 64 word \<Rightarrow> nat \<Rightarrow> fault + AspeedSMCState" where
  "aspeed_smc_flash_write s fl a data n =
     (if \<not> aspeed_smc_is_writable s fl
      then Inr (qemu_log_mask LOG_GUEST_ERROR ''flash is not writable'' s)
      else
        let mode = aspeed_smc_flash_mode s fl
        in if mode = CTRL_USERMODE then
             (let (snooped, s) = aspeed_smc_do_snoop s fl data n
              in if snooped then Inr s else Inr (flash_write_bytes data n s))
           else if mode = CTRL_WRITEMODE then
             seq (aspeed_smc_flash_select s fl) (\<lambda>s.
             seq (aspeed_smc_flash_setup s fl (ucast a)) (\<lambda>s.
               aspeed_smc_flash_unselect (flash_write_bytes data n s) fl))
           else Inr (qemu_log_mask LOG_GUEST_ERROR ''invalid flash mode'' s))"

definition aspeed_smc_flash_update_cs :: "AspeedSMCState \<Rightarrow> nat \<Rightarrow> fault + AspeedSMCState" where
  "aspeed_smc_flash_update_cs s fl =
     (let s = s\<lparr> snoop_index :=
                  (if aspeed_smc_is_ce_stop_active s fl then SNOOP_OFF else SNOOP_START) \<rparr>
      in set_cs_line fl (aspeed_smc_is_ce_stop_active s fl) s)"

subsection \<open>Reset and register reads\<close>

fun reset_unselect :: "nat list \<Rightarrow> AspeedSMCState \<Rightarrow> AspeedSMCState" where
  "reset_unselect [] s = s"
| "reset_unselect (i # rest) s =
     reset_unselect rest
       ((set_reg (r_ctrl0 (ctrl s) + i)
           (regs s (r_ctrl0 (ctrl s) + i) OR CTRL_CE_STOP_ACTIVE) s)
          \<lparr> cs_lines := (cs_lines s)(i := True) \<rparr>)"

fun reset_segments :: "nat list \<Rightarrow> AspeedSMCState \<Rightarrow> fault + AspeedSMCState" where
  "reset_segments [] s = Inr s"
| "reset_segments (i # rest) s =
     (case segment_at (segments (ctrl s)) i of
        None \<Rightarrow> Inl SegmentTableOverrun
      | Some d \<Rightarrow> reset_segments rest (set_reg (R_SEG_ADDR0 + i) (segment_to_reg (ctrl s) d) s))"

definition conf_strap :: "nat list \<Rightarrow> AspeedSMCState \<Rightarrow> AspeedSMCState" where
  "conf_strap shifts s =
     fold (\<lambda>sh s. set_reg (r_conf (ctrl s))
                     (regs s (r_conf (ctrl s)) OR push_bit sh CONF_FLASH_TYPE_SPI) s)
          shifts s"

text \<open>The three hardware strappings of the flash type at the end of reset.\<close>

definition reset_flash_type :: "AspeedSMCState \<Rightarrow> AspeedSMCState" where
  "reset_flash_type s =
     (let s = (if segments (ctrl s) = aspeed_segments_ast2600_fmc
               then conf_strap [CONF_FLASH_TYPE0, CONF_FLASH_TYPE1, CONF_FLASH_TYPE2] s
               else s);
          s = (if segments (ctrl s) = aspeed_segments_ast2500_fmc
               then conf_strap [CONF_FLASH_TYPE0, CONF_FLASH_TYPE1] s
               else s);
          s = (if segments (ctrl s) = aspeed_segments_fmc
               then conf_strap [CONF_FLASH_TYPE0] s
               else s)
      in s)"

definition aspeed_smc_reset :: "AspeedSMCState \<Rightarrow> fault + AspeedSMCState" where
  "aspeed_smc_reset s =
     (let s = s\<lparr> regs := (\<lambda>_. 0) \<rparr>;
          s = reset_unselect [0 ..< num_cs s] s
      in seq (reset_segments [0 ..< max_slaves (ctrl s)] s) (\<lambda>s.
           Inr ((reset_flash_type s)\<lparr> snoop_index := SNOOP_OFF, snoop_dummies := 0 \<rparr>)))"

text \<open>
  \<open>addr\<close> is the byte offset in the register window; the source turns it into a
  register index with \<open>addr >>= 2\<close>.
\<close>

definition aspeed_smc_read :: "AspeedSMCState \<Rightarrow> nat \<Rightarrow> 64 word \<times> AspeedSMCState" where
  "aspeed_smc_read s addr0 =
     (let addr = addr0 div 4; c = ctrl s
      in if addr = r_conf c \<or> addr = r_timings c \<or> addr = r_ce_ctrl c
            \<or> addr = R_INTR_CTRL \<or> addr = R_DUMMY_DATA
            \<or> (has_dma c \<and> addr = R_DMA_CTRL)
            \<or> (has_dma c \<and> addr = R_DMA_FLASH_ADDR)
            \<or> (has_dma c \<and> addr = R_DMA_DRAM_ADDR)
            \<or> (has_dma c \<and> addr = R_DMA_LEN)
            \<or> (has_dma c \<and> addr = R_DMA_CHECKSUM)
            \<or> (addr \<ge> R_SEG_ADDR0 \<and> addr < R_SEG_ADDR0 + max_slaves c)
            \<or> (addr \<ge> r_ctrl0 c \<and> addr < r_ctrl0 c + max_slaves c)
         then (ucast (regs s addr), s)
         else (- 1, qemu_log_mask LOG_UNIMP ''not implemented'' s))"


subsection \<open>DMA engine\<close>

definition hclk_divisors :: "8 word list" where
  "hclk_divisors = [15, 7, 14, 6, 13, 5, 12, 4, 11, 3, 10, 2, 9, 1, 8, 0]"

fun hclk_divisor_loop :: "nat \<Rightarrow> 8 word list \<Rightarrow> 8 word \<Rightarrow> 8 word option" where
  "hclk_divisor_loop i [] hclk_mask = None"
| "hclk_divisor_loop i (d # ds) hclk_mask =
     (if hclk_mask = d then Some (word_of_nat (i + 1))
      else hclk_divisor_loop (i + 1) ds hclk_mask)"

definition aspeed_smc_hclk_divisor :: "8 word \<Rightarrow> AspeedSMCState \<Rightarrow> 8 word \<times> AspeedSMCState" where
  "aspeed_smc_hclk_divisor hclk_mask s =
     (case hclk_divisor_loop 0 hclk_divisors hclk_mask of
        Some d \<Rightarrow> (d, s)
      | None \<Rightarrow> (0, qemu_log_mask LOG_GUEST_ERROR ''invalid HCLK mask'' s))"

definition dma_ctrl_delay :: "AspeedSMCState \<Rightarrow> 8 word" where
  "dma_ctrl_delay s =
     ucast (drop_bit DMA_CTRL_DELAY_SHIFT (regs s R_DMA_CTRL) AND DMA_CTRL_DELAY_MASK)"

definition dma_ctrl_hclk_mask :: "AspeedSMCState \<Rightarrow> 8 word" where
  "dma_ctrl_hclk_mask s =
     ucast (drop_bit DMA_CTRL_FREQ_SHIFT (regs s R_DMA_CTRL) AND DMA_CTRL_FREQ_MASK)"

definition aspeed_smc_dma_calibration :: "AspeedSMCState \<Rightarrow> AspeedSMCState" where
  "aspeed_smc_dma_calibration s =
     (let delay = dma_ctrl_delay s;
          hclk_mask = dma_ctrl_hclk_mask s;
          (hclk_div, s) = aspeed_smc_hclk_divisor hclk_mask s;
          hclk_shift = unat (push_bit 2 ((ucast hclk_div :: 32 word) - 1));
          t = r_timings (ctrl s);
          s = (if hclk_div \<noteq> 0 \<and> hclk_div < 6
               then
                 let s = set_reg t (regs s t AND NOT (push_bit hclk_shift 0xf)) s
                 in set_reg t (regs s t OR push_bit hclk_shift (ucast delay)) s
               else s);
          cs = 0;
          i = r_ctrl0 (ctrl s) + cs;
          s = set_reg i (regs s i
                AND NOT (push_bit CE_CTRL_CLOCK_FREQ_SHIFT CE_CTRL_CLOCK_FREQ_MASK)) s
      in set_reg i (regs s i OR CE_CTRL_CLOCK_FREQ (ucast hclk_div)) s)"

definition aspeed_smc_inject_read_failure ::
    "AspeedSMCState \<Rightarrow> fault + (bool \<times> AspeedSMCState)" where
  "aspeed_smc_inject_read_failure s =
     (let delay = dma_ctrl_delay s;
          hclk_mask = dma_ctrl_hclk_mask s;
          (d, s) = aspeed_smc_hclk_divisor hclk_mask s
      in if 4 \<le> d \<and> d \<le> 16 then Inr (False, s)
         else if d = 3 then Inr (delay AND 0x7 < 1, s)
         else if d = 2 then Inr (delay AND 0x7 < 2, s)
         else if d = 1 then Inr (True, s)
         else Inl AssertNotReached)"

text \<open>
  The two DMA loops run while \<open>regs[R_DMA_LEN]\<close> is not zero and need not exit, so they
  are partial functions: \<open>None\<close> is a loop that never returns. The flag of the result
  says whether the loop ran to its end (\<open>True\<close>) or left the function by the
  \<open>return\<close> of a failed memory transaction (\<open>False\<close>).
\<close>

partial_function (option) dma_checksum_loop ::
    "AspeedSMCState \<Rightarrow> (bool \<times> AspeedSMCState) option" where
  "dma_checksum_loop s =
     (if regs s R_DMA_LEN = 0 then Some (True, s)
      else
        case address_space_ldl_le (flash_as s) (regs s R_DMA_FLASH_ADDR) of
          None \<Rightarrow> Some (False, qemu_log_mask LOG_GUEST_ERROR ''Flash read failed'' s)
        | Some data \<Rightarrow>
            dma_checksum_loop
              (set_reg R_DMA_LEN (regs s R_DMA_LEN - 4)
                (set_reg R_DMA_FLASH_ADDR (regs s R_DMA_FLASH_ADDR + 4)
                  (set_reg R_DMA_CHECKSUM (regs s R_DMA_CHECKSUM + data) s))))"

declare dma_checksum_loop.simps [code]

definition aspeed_smc_dma_checksum :: "AspeedSMCState \<Rightarrow> fault + AspeedSMCState" where
  "aspeed_smc_dma_checksum s =
     (if regs s R_DMA_CTRL AND DMA_CTRL_WRITE \<noteq> 0
      then Inr (qemu_log_mask LOG_GUEST_ERROR ''invalid direction for DMA checksum'' s)
      else
        let s = (if regs s R_DMA_CTRL AND DMA_CTRL_CALIB \<noteq> 0
                 then aspeed_smc_dma_calibration s else s)
        in case dma_checksum_loop s of
             None \<Rightarrow> Inl NoReturn
           | Some (False, s) \<Rightarrow> Inr s
           | Some (True, s) \<Rightarrow>
               if inject_failure s
               then seq (aspeed_smc_inject_read_failure s) (\<lambda>(fail, s).
                      Inr (if fail then set_reg R_DMA_CHECKSUM 0xbadc0de s else s))
               else Inr s)"

definition dma_rw_advance :: "32 word \<Rightarrow> AspeedSMCState \<Rightarrow> AspeedSMCState" where
  "dma_rw_advance data s =
     (let s = set_reg R_DMA_FLASH_ADDR (regs s R_DMA_FLASH_ADDR + 4) s;
          s = set_reg R_DMA_DRAM_ADDR (regs s R_DMA_DRAM_ADDR + 4) s;
          s = set_reg R_DMA_LEN (regs s R_DMA_LEN - 4) s
      in set_reg R_DMA_CHECKSUM (regs s R_DMA_CHECKSUM + data) s)"

partial_function (option) dma_rw_loop ::
    "AspeedSMCState \<Rightarrow> (bool \<times> AspeedSMCState) option" where
  "dma_rw_loop s =
     (if regs s R_DMA_LEN = 0 then Some (True, s)
      else if regs s R_DMA_CTRL AND DMA_CTRL_WRITE \<noteq> 0 then
        (case address_space_ldl_le (dram_as s) (regs s R_DMA_DRAM_ADDR) of
           None \<Rightarrow> Some (False, qemu_log_mask LOG_GUEST_ERROR ''DRAM read failed'' s)
         | Some data \<Rightarrow>
             (case address_space_stl_le (flash_as s) (regs s R_DMA_FLASH_ADDR) data of
                None \<Rightarrow> Some (False, qemu_log_mask LOG_GUEST_ERROR ''Flash write failed'' s)
              | Some m \<Rightarrow> dma_rw_loop (dma_rw_advance data (s\<lparr> flash_as := m \<rparr>))))
      else
        (case address_space_ldl_le (flash_as s) (regs s R_DMA_FLASH_ADDR) of
           None \<Rightarrow> Some (False, qemu_log_mask LOG_GUEST_ERROR ''Flash read failed'' s)
         | Some data \<Rightarrow>
             (case address_space_stl_le (dram_as s) (regs s R_DMA_DRAM_ADDR) data of
                None \<Rightarrow> Some (False, qemu_log_mask LOG_GUEST_ERROR ''DRAM write failed'' s)
              | Some m \<Rightarrow> dma_rw_loop (dma_rw_advance data (s\<lparr> dram_as := m \<rparr>)))))"

declare dma_rw_loop.simps [code]

definition aspeed_smc_dma_rw :: "AspeedSMCState \<Rightarrow> fault + AspeedSMCState" where
  "aspeed_smc_dma_rw s =
     (case dma_rw_loop s of None \<Rightarrow> Inl NoReturn | Some (_, s) \<Rightarrow> Inr s)"

definition aspeed_smc_dma_stop :: "AspeedSMCState \<Rightarrow> AspeedSMCState" where
  "aspeed_smc_dma_stop s =
     (let s = set_reg R_INTR_CTRL (regs s R_INTR_CTRL AND NOT INTR_CTRL_DMA_STATUS) s;
          s = set_reg R_DMA_CHECKSUM 0 s
      in s\<lparr> irq := False \<rparr>)"

definition aspeed_smc_dma_in_progress :: "AspeedSMCState \<Rightarrow> bool" where
  "aspeed_smc_dma_in_progress s =
     (regs s R_DMA_CTRL AND DMA_CTRL_ENABLE \<noteq> 0
      \<and> \<not> (regs s R_INTR_CTRL AND INTR_CTRL_DMA_STATUS \<noteq> 0))"

definition aspeed_smc_dma_done :: "AspeedSMCState \<Rightarrow> AspeedSMCState" where
  "aspeed_smc_dma_done s =
     (let s = set_reg R_INTR_CTRL (regs s R_INTR_CTRL OR INTR_CTRL_DMA_STATUS) s
      in if regs s R_INTR_CTRL AND INTR_CTRL_DMA_EN \<noteq> 0 then s\<lparr> irq := True \<rparr> else s)"

definition aspeed_smc_dma_ctrl :: "AspeedSMCState \<Rightarrow> 32 word \<Rightarrow> fault + AspeedSMCState" where
  "aspeed_smc_dma_ctrl s dma_ctrl =
     (if dma_ctrl AND DMA_CTRL_ENABLE = 0
      then Inr (aspeed_smc_dma_stop (set_reg R_DMA_CTRL dma_ctrl s))
      else if aspeed_smc_dma_in_progress s
      then Inr (qemu_log_mask LOG_GUEST_ERROR ''DMA in progress'' s)
      else
        let s = set_reg R_DMA_CTRL dma_ctrl s
        in seq (if regs s R_DMA_CTRL AND DMA_CTRL_CKSUM \<noteq> 0
                then aspeed_smc_dma_checksum s
                else aspeed_smc_dma_rw s)
               (\<lambda>s. Inr (aspeed_smc_dma_done s)))"

subsection \<open>Register writes\<close>

definition DMA_DRAM_ADDR :: "AspeedSMCState \<Rightarrow> 32 word \<Rightarrow> 32 word" where
  "DMA_DRAM_ADDR s val = ucast (sdram_base s OR (ucast val AND dma_dram_mask (ctrl s)))"

definition DMA_FLASH_ADDR :: "AspeedSMCState \<Rightarrow> 32 word \<Rightarrow> 32 word" where
  "DMA_FLASH_ADDR s val =
     ucast (flash_window_base (ctrl s) OR (ucast val AND dma_flash_mask (ctrl s)))"

definition DMA_LENGTH :: "32 word \<Rightarrow> 32 word" where
  "DMA_LENGTH val = val AND 0x01FFFFFC"

text \<open>
  \<open>addr0\<close> is the byte offset of the access in the register window and \<open>data\<close> the
  64-bit value of the memory API; the source keeps its low 32 bits.
\<close>

definition aspeed_smc_write :: "AspeedSMCState \<Rightarrow> nat \<Rightarrow> 64 word \<Rightarrow> fault + AspeedSMCState" where
  "aspeed_smc_write s addr0 data =
     (let v = (ucast data :: 32 word); addr = addr0 div 4; c = ctrl s
      in if addr = r_conf c \<or> addr = r_timings c \<or> addr = r_ce_ctrl c
         then Inr (set_reg addr v s)
         else if addr \<ge> r_ctrl0 c \<and> addr < r_ctrl0 c + num_cs s
         then aspeed_smc_flash_update_cs (set_reg addr v s) (addr - r_ctrl0 c)
         else if addr \<ge> R_SEG_ADDR0 \<and> addr < R_SEG_ADDR0 + max_slaves c
         then
           (let cs = addr - R_SEG_ADDR0
            in if v \<noteq> regs s (R_SEG_ADDR0 + cs)
               then aspeed_smc_flash_set_segment s cs v
               else Inr s)
         else if addr = R_DUMMY_DATA then Inr (set_reg addr (v AND 0xff) s)
         else if addr = R_INTR_CTRL then Inr (set_reg addr v s)
         else if has_dma c \<and> addr = R_DMA_CTRL then aspeed_smc_dma_ctrl s v
         else if has_dma c \<and> addr = R_DMA_DRAM_ADDR
         then Inr (set_reg addr (DMA_DRAM_ADDR s v) s)
         else if has_dma c \<and> addr = R_DMA_FLASH_ADDR
         then Inr (set_reg addr (DMA_FLASH_ADDR s v) s)
         else if has_dma c \<and> addr = R_DMA_LEN
         then Inr (set_reg addr (DMA_LENGTH v) s)
         else Inr (qemu_log_mask LOG_UNIMP ''not implemented'' s))"

subsection \<open>Realize\<close>

fun realize_flashes ::
    "nat list \<Rightarrow> hwaddr \<Rightarrow> AspeedSMCState \<Rightarrow> fault + AspeedSMCState" where
  "realize_flashes [] offset s = Inr s"
| "realize_flashes (i # rest) offset s =
     (case segment_at (segments (ctrl s)) i of
        None \<Rightarrow> Inl SegmentTableOverrun
      | Some d \<Rightarrow>
          realize_flashes rest (offset + ucast (seg_size d))
            (s\<lparr> flashes := (flashes s)
                   (i := \<lparr> fl_size = seg_size d,
                           mmio = \<lparr> mr_addr = offset, mr_size = ucast (seg_size d),
                                    mr_enabled = True \<rparr> \<rparr>) \<rparr>))"

text \<open>
  The device object is allocated zeroed; realize takes the descriptor of the class, the
  properties \<open>num-cs\<close>, \<open>inject-failure\<close> and \<open>sdram-base\<close>, and the collaborators.
  The \<open>dram\<close> link is taken as set.
\<close>

definition aspeed_smc_realize ::
    "AspeedSMCController \<Rightarrow> nat \<Rightarrow> bool \<Rightarrow> 64 word \<Rightarrow> (32 word list \<Rightarrow> 32 word)
       \<Rightarrow> AddressSpace \<Rightarrow> AddressSpace \<Rightarrow> fault + AspeedSMCState" where
  "aspeed_smc_realize c n failure sdram slave fas das =
     (let s = \<lparr> ctrl = c, irq = False, num_cs = n, cs_lines = (\<lambda>_. False),
                inject_failure = failure, spi = \<lparr> ssi_sent = [], ssi_slave = slave \<rparr>,
                regs = (\<lambda>_. 0), sdram_base = sdram, flash_as = fas, dram_as = das,
                flashes = (\<lambda>_. \<lparr> fl_size = 0,
                                  mmio = \<lparr> mr_addr = 0, mr_size = 0, mr_enabled = False \<rparr> \<rparr>),
                snoop_index = 0, snoop_dummies = 0, qemu_log = [] \<rparr>;
          s = (if num_cs s > max_slaves c
               then (qemu_log_mask LOG_GUEST_ERROR ''num_cs cannot exceed'' s)
                      \<lparr> num_cs := max_slaves c \<rparr>
               else s)
      in realize_flashes [0 ..< max_slaves c] 0 s)"


section \<open>Aspeed I2C controller (hw/i2c/aspeed\_i2c.c)\<close>

subsection \<open>Registers and bit fields\<close>








subsection \<open>The I2C bus collaborator\<close>

text \<open>
  Modelled from the spec: the I2C bus abstraction with
  \<open>start_transfer(bus, addr7, rnw)\<close>, \<open>send(bus, byte)\<close>, \<open>recv(bus)\<close>,
  \<open>nack(bus)\<close>, \<open>end_transfer(bus)\<close> and \<open>is_busy(bus)\<close>. The bus keeps the
  calls made on it, oldest first; the attached slaves answer the last call, and say
  whether the bus is busy, as functions of that history. \<open>i2c_start_transfer\<close> and
  \<open>i2c_send\<close> return 0 for an acknowledge.
\<close>

datatype i2c_event =
    I2C_start "8 word" bool
  | I2C_send "8 word"
  | I2C_recv
  | I2C_nack
  | I2C_end

record I2CBus =
  i2c_history :: "i2c_event list"
  i2c_reply :: "i2c_event list \<Rightarrow> int"
  i2c_busy :: "i2c_event list \<Rightarrow> bool"








subsection \<open>Controller state\<close>

text \<open>
  A bus is named by its index in \<open>busses\<close>, which is its \<open>id\<close>; its controller is
  the state passed along. The register \<open>ctrl\<close> of a bus is the field \<open>fun_ctrl\<close>
  and the \<open>intr_status\<close> of the controller is \<open>ctrl_intr_status\<close>, since field
  names are global.
\<close>

record AspeedI2CBus =
  fun_ctrl :: "32 word"
  timing :: "nat \<Rightarrow> 32 word"
  intr_ctrl :: "32 word"
  intr_status :: "32 word"
  cmd :: "32 word"
  buf :: "32 word"
  pool_ctrl :: "32 word"
  bus :: I2CBus
  bus_irq :: bool

datatype AspeedI2CClass = ASPEED_2400_I2C | ASPEED_2500_I2C | ASPEED_2600_I2C

record AspeedI2CState =
  aic :: AspeedI2CClass
  i2c_irq :: bool
  ctrl_intr_status :: "32 word"
  busses :: "nat \<Rightarrow> AspeedI2CBus"
  pool :: "nat \<Rightarrow> 8 word"
  i2c_log :: "(log_mask \<times> string) list"


fun reg_size :: "AspeedI2CClass \<Rightarrow> nat" where
  "reg_size ASPEED_2400_I2C = 0x40"
| "reg_size ASPEED_2500_I2C = 0x40"
| "reg_size ASPEED_2600_I2C = 0x80"

fun gap :: "AspeedI2CClass \<Rightarrow> int" where
  "gap ASPEED_2400_I2C = 7"
| "gap ASPEED_2500_I2C = 7"
| "gap ASPEED_2600_I2C = - 1"

fun pool_size :: "AspeedI2CClass \<Rightarrow> nat" where
  "pool_size ASPEED_2400_I2C = 0x800"
| "pool_size ASPEED_2500_I2C = 0x200"
| "pool_size ASPEED_2600_I2C = 0x200"

fun pool_base :: "AspeedI2CClass \<Rightarrow> nat" where
  "pool_base ASPEED_2400_I2C = 0x800"
| "pool_base ASPEED_2500_I2C = 0x100"
| "pool_base ASPEED_2600_I2C = 0xC00"

definition i2c_log_mask :: "log_mask \<Rightarrow> string \<Rightarrow> AspeedI2CState \<Rightarrow> AspeedI2CState" where
  "i2c_log_mask m msg s = s\<lparr> i2c_log := i2c_log s @ [(m, msg)] \<rparr>"




subsection \<open>Bus operations\<close>

















subsection \<open>Controller registers, pool, reset and realize\<close>



definition aspeed_i2c_pool_read :: "AspeedI2CState \<Rightarrow> nat \<Rightarrow> nat \<Rightarrow> 64 word" where
  "aspeed_i2c_pool_read s offset n =
     fold (\<lambda>k ret. ret OR push_bit (8 * k) (ucast (pool s (offset + k)))) [0 ..< n] 0"





section \<open>Notions of the specification\<close>



text \<open>
  Concrete environments for examples: an SPI slave that answers 0, address spaces with
  nothing mapped, an I2C bus without slaves, and a controller that was realized with
  these and then reset.
\<close>

definition smc_boot :: "AspeedSMCController \<Rightarrow> nat \<Rightarrow> fault + AspeedSMCState" where
  "smc_boot c n =
     seq (aspeed_smc_realize c n False 0 (\<lambda>_. 0) (\<lambda>_. None) (\<lambda>_. None)) aspeed_smc_reset"








text \<open>
  An operation on bus \<open>i\<close> that leaves the aggregate interrupt status of the
  controller and every other bus as they were.
\<close>

definition bus_frame :: "nat \<Rightarrow> AspeedI2CState \<Rightarrow> AspeedI2CState \<Rightarrow> bool" where
  "bus_frame i s s' \<longleftrightarrow> ctrl_intr_status s' = ctrl_intr_status s \<and> aic s' = aic s
      \<and> (\<forall>j. j \<noteq> i \<longrightarrow> busses s' j = busses s j)"


text \<open>A sequence of MMIO writes to the register window of the SMC, first write first.\<close>

fun smc_writes :: "AspeedSMCState \<Rightarrow> (nat \<times> 64 word) list \<Rightarrow> fault + AspeedSMCState" where
  "smc_writes s [] = Inr s"
| "smc_writes s ((a, v) # ws) = seq (aspeed_smc_write s a v) (\<lambda>s. smc_writes s ws)"

text \<open>
  A chip select in User Mode that accepts writes and uses 3-byte addresses; a sequence
  of single-byte guest writes to its flash window, first byte first.
\<close>

definition user_ready :: "AspeedSMCState \<Rightarrow> nat \<Rightarrow> bool" where
  "user_ready s fl \<longleftrightarrow> aspeed_smc_is_writable s fl
      \<and> aspeed_smc_flash_mode s fl = CTRL_USERMODE \<and> \<not> aspeed_smc_flash_is_4byte s fl"

fun user_write_bytes :: "AspeedSMCState \<Rightarrow> nat \<Rightarrow> 64 word list \<Rightarrow> fault + AspeedSMCState" where
  "user_write_bytes s fl [] = Inr s"
| "user_write_bytes s fl (d # ds) =
     seq (aspeed_smc_flash_write s fl 0 d 1) (\<lambda>s. user_write_bytes s fl ds)"

text \<open>
  Two states with the same controller and the same register file; a state \<open>t\<close> that
  differs from \<open>s\<close> by the snoop tracker and by the values \<open>out\<close> sent on the SPI
  bus since \<open>s\<close>.
\<close>

definition same_regs :: "AspeedSMCState \<Rightarrow> AspeedSMCState \<Rightarrow> bool" where
  "same_regs s s' \<longleftrightarrow> regs s' = regs s \<and> ctrl s' = ctrl s"

definition snoop_at ::
    "AspeedSMCState \<Rightarrow> AspeedSMCState \<Rightarrow> 8 word \<Rightarrow> 8 word \<Rightarrow> 32 word list \<Rightarrow> bool" where
  "snoop_at s t k m out \<longleftrightarrow> same_regs s t \<and> snoop_index t = k \<and> snoop_dummies t = m
      \<and> ssi_sent (spi t) = ssi_sent (spi s) @ out"

text \<open>
  The AST2400 FMC after reset, with CE0 write-enabled, put in User Mode with the chip
  select released and then asserted, and DUMMY\_DATA set to 0x5A.
\<close>

definition snoop_example :: AspeedSMCState where
  "snoop_example =
     projr (seq (smc_boot fmc_ast2400 1)
              (\<lambda>s. smc_writes s [(0x00, 0x10002), (0x10, 0x7), (0x10, 0x3), (0x54, 0x5A)]))"

text \<open>Two states that differ at most by the register file.\<close>

definition only_regs_differ :: "AspeedSMCState \<Rightarrow> AspeedSMCState \<Rightarrow> bool" where
  "only_regs_differ s s' \<longleftrightarrow> s' = s\<lparr> regs := regs s' \<rparr>"

text \<open>
  Examples for the DMA engine: the AST2400 FMC after reset, with a flash address space
  that holds two words at the start of the flash window; the same with a DMA of two
  words programmed; and the same after a first DMA was started and the guest then
  wrote 0 to INTR\_CTRL, which clears the DMA status bit while DMA\_CTRL still has
  ENABLE set.
\<close>

definition dma_flash :: AddressSpace where
  "dma_flash a =
     (if a = 0x20000000 then Some 0x11223344
      else if a = 0x20000004 then Some 0xF0000000
      else None)"

definition dma_example :: AspeedSMCState where
  "dma_example =
     projr (seq (aspeed_smc_realize fmc_ast2400 1 False 0x40000000 (\<lambda>_. 0) dma_flash (\<lambda>_. None))
              aspeed_smc_reset)"

definition dma_idle_example :: AspeedSMCState where
  "dma_idle_example = projr (smc_writes dma_example [(0x84, 0x0), (0x8C, 0x8)])"

definition dma_busy_example :: AspeedSMCState where
  "dma_busy_example =
     projr (smc_writes dma_example [(0x80, 0x5), (0x08, 0x0), (0x84, 0x0), (0x8C, 0x8)])"

text \<open>
  The DMA loops with a bound on the number of iterations: \<open>None\<close> when the loop has
  not left after \<open>k\<close> iterations of its body.
\<close>

fun dma_checksum_loop_bounded ::
    "nat \<Rightarrow> AspeedSMCState \<Rightarrow> (bool \<times> AspeedSMCState) option" where
  "dma_checksum_loop_bounded 0 s = (if regs s R_DMA_LEN = 0 then Some (True, s) else None)"
| "dma_checksum_loop_bounded (Suc k) s =
     (if regs s R_DMA_LEN = 0 then Some (True, s)
      else
        case address_space_ldl_le (flash_as s) (regs s R_DMA_FLASH_ADDR) of
          None \<Rightarrow> Some (False, qemu_log_mask LOG_GUEST_ERROR ''Flash read failed'' s)
        | Some data \<Rightarrow>
            dma_checksum_loop_bounded k
              (set_reg R_DMA_LEN (regs s R_DMA_LEN - 4)
                (set_reg R_DMA_FLASH_ADDR (regs s R_DMA_FLASH_ADDR + 4)
                  (set_reg R_DMA_CHECKSUM (regs s R_DMA_CHECKSUM + data) s))))"

fun dma_rw_loop_bounded ::
    "nat \<Rightarrow> AspeedSMCState \<Rightarrow> (bool \<times> AspeedSMCState) option" where
  "dma_rw_loop_bounded 0 s = (if regs s R_DMA_LEN = 0 then Some (True, s) else None)"
| "dma_rw_loop_bounded (Suc k) s =
     (if regs s R_DMA_LEN = 0 then Some (True, s)
      else if regs s R_DMA_CTRL AND DMA_CTRL_WRITE \<noteq> 0 then
        (case address_space_ldl_le (dram_as s) (regs s R_DMA_DRAM_ADDR) of
           None \<Rightarrow> Some (False, qemu_log_mask LOG_GUEST_ERROR ''DRAM read failed'' s)
         | Some data \<Rightarrow>
             (case address_space_stl_le (flash_as s) (regs s R_DMA_FLASH_ADDR) data of
                None \<Rightarrow> Some (False, qemu_log_mask LOG_GUEST_ERROR ''Flash write failed'' s)
              | Some m \<Rightarrow> dma_rw_loop_bounded k (dma_rw_advance data (s\<lparr> flash_as := m \<rparr>))))
      else
        (case address_space_ldl_le (flash_as s) (regs s R_DMA_FLASH_ADDR) of
           None \<Rightarrow> Some (False, qemu_log_mask LOG_GUEST_ERROR ''Flash read failed'' s)
         | Some data \<Rightarrow>
             (case address_space_stl_le (dram_as s) (regs s R_DMA_DRAM_ADDR) data of
                None \<Rightarrow> Some (False, qemu_log_mask LOG_GUEST_ERROR ''DRAM write failed'' s)
              | Some m \<Rightarrow> dma_rw_loop_bounded k (dma_rw_advance data (s\<lparr> dram_as := m \<rparr>)))))"

text \<open>
  The states of the SMC that the guest can reach: realize of one of the controllers,
  then any sequence of resets, of MMIO accesses to the register window (the memory
  core only dispatches offsets below \<open>nregs * 4\<close>) and to the flash window of a chip
  select, each of which returns, and of changes of the contents of the two address
  spaces by the rest of the machine.
\<close>

inductive smc_reachable :: "AspeedSMCState \<Rightarrow> bool" where
  smc_realized:
    "c \<in> set controllers \<Longrightarrow> aspeed_smc_realize c n failure sd slave fas das = Inr s
       \<Longrightarrow> smc_reachable s"
| smc_reset: "smc_reachable s \<Longrightarrow> aspeed_smc_reset s = Inr s' \<Longrightarrow> smc_reachable s'"
| smc_write:
    "smc_reachable s \<Longrightarrow> addr < 4 * nregs (ctrl s) \<Longrightarrow> aspeed_smc_write s addr data = Inr s'
       \<Longrightarrow> smc_reachable s'"
| smc_read:
    "smc_reachable s \<Longrightarrow> addr < 4 * nregs (ctrl s)
       \<Longrightarrow> smc_reachable (snd (aspeed_smc_read s addr))"
| smc_flash_write:
    "smc_reachable s \<Longrightarrow> fl < max_slaves (ctrl s)
       \<Longrightarrow> aspeed_smc_flash_write s fl a data n = Inr s' \<Longrightarrow> smc_reachable s'"
| smc_flash_read:
    "smc_reachable s \<Longrightarrow> fl < max_slaves (ctrl s)
       \<Longrightarrow> aspeed_smc_flash_read s fl a n = Inr (v, s') \<Longrightarrow> smc_reachable s'"
| smc_memory: "smc_reachable s \<Longrightarrow> smc_reachable (s\<lparr> flash_as := fas, dram_as := das \<rparr>)"

text \<open>
  A step that keeps the controller, the number of chip selects and the DMA length
  register.
\<close>

definition len_kept :: "AspeedSMCState \<Rightarrow> AspeedSMCState \<Rightarrow> bool" where
  "len_kept s s' \<longleftrightarrow> ctrl s' = ctrl s \<and> num_cs s' = num_cs s
      \<and> regs s' R_DMA_LEN = regs s R_DMA_LEN"

section \<open>Verified properties\<close>

subsection \<open>Word arithmetic of the segment encodings\<close>











lemmas controller_defs = smc_ast2400_def fmc_ast2400_def spi1_ast2400_def fmc_ast2500_def
  spi1_ast2500_def spi2_ast2500_def fmc_ast2600_def spi1_ast2600_def spi2_ast2600_def



subsection \<open>C2: segment round trip\<close>




subsection \<open>Reset\<close>


lemma set_reg_fields:
  "ctrl (set_reg i v s) = ctrl s" "num_cs (set_reg i v s) = num_cs s"
  "snoop_index (set_reg i v s) = snoop_index s" "snoop_dummies (set_reg i v s) = snoop_dummies s"
  "qemu_log (set_reg i v s) = qemu_log s" "flashes (set_reg i v s) = flashes s"
  "irq (set_reg i v s) = irq s" "spi (set_reg i v s) = spi s"
  "flash_as (set_reg i v s) = flash_as s" "dram_as (set_reg i v s) = dram_as s"
  "inject_failure (set_reg i v s) = inject_failure s" "cs_lines (set_reg i v s) = cs_lines s"
  "sdram_base (set_reg i v s) = sdram_base s"
  by (simp_all add: set_reg_def)






lemma conf_strap_fields:
  "ctrl (conf_strap shs s) = ctrl s" "num_cs (conf_strap shs s) = num_cs s"
  unfolding conf_strap_def
  by (induction shs arbitrary: s; simp add: set_reg_fields)+

lemmas reg_index_defs = R_CONF_def R_CE_CTRL_def R_INTR_CTRL_def R_CTRL0_def R_SEG_ADDR0_def
  R_DUMMY_DATA_def R_DMA_CTRL_def R_DMA_FLASH_ADDR_def R_DMA_DRAM_ADDR_def R_DMA_LEN_def
  R_DMA_CHECKSUM_def R_TIMINGS_def R_SPI_CONF_def R_SPI_CTRL0_def R_SPI_TIMINGS_def

lemma controllers_layout:
  assumes "c \<in> set controllers"
  shows "r_conf c = 0 \<and> (r_ctrl0 c = 1 \<or> r_ctrl0 c = 4) \<and> max_slaves c \<le> 5
         \<and> (r_timings c = 37 \<or> r_timings c = 5) \<and> (r_ce_ctrl c = 1 \<or> r_ce_ctrl c = 255)"
  using assms unfolding controllers_def by (auto simp: controller_defs reg_index_defs)


lemma reset_flash_type_fields:
  "ctrl (reset_flash_type s) = ctrl s" "num_cs (reset_flash_type s) = num_cs s"
  unfolding reset_flash_type_def Let_def by (simp_all add: conf_strap_fields)








subsection \<open>C8: what reset leaves\<close>




subsection \<open>C6: the end of the last segment of the AST2500 SPI controllers\<close>

text \<open>
  C6: on the two AST2500 SPI controllers, a write to the last segment register with
  another end address must leave the end of the segment at its default. The fix-up of
  \<open>aspeed_smc_flash_set_segment\<close> tests \<open>cs == max_slaves\<close>, one past the last chip
  select, so it never runs for a register that can be written. On aspeed.spi1-ast2500
  after reset, writing 0x68640000 to SEG\_ADDR1 (start 0x32000000, end 0x34000000)
  is committed as written, without a guest error, and the segment ends at 0x34000000
  instead of the default 0x38000000.
\<close>

theorem ast2500_spi1_last_segment_end_moves:
  "\<not> isl (seq (smc_boot spi1_ast2500 2) (\<lambda>s. aspeed_smc_write s 0x34 0x68640000))
   \<and> (let s = projr (seq (smc_boot spi1_ast2500 2) (\<lambda>s. aspeed_smc_write s 0x34 0x68640000));
           d = segments_entries (segments (ctrl s)) ! (max_slaves (ctrl s) - 1);
           g = reg_to_segment (ctrl s) (regs s (R_SEG_ADDR0 + (max_slaves (ctrl s) - 1)))
       in seg_addr d + ucast (seg_size d) = 0x38000000
          \<and> regs s (R_SEG_ADDR0 + 1) = 0x68640000
          \<and> seg_addr g + ucast (seg_size g) = 0x34000000
          \<and> mr_size (mmio (flashes s 1)) = 0x2000000
          \<and> qemu_log s = [])"
  by code_simp

subsection \<open>I2C: operations on one bus\<close>

lemma bus_frame_log: "bus_frame i s (i2c_log_mask m msg s)"
  by (simp add: bus_frame_def i2c_log_mask_def)























subsection \<open>C4: aggregate interrupt status\<close>




subsection \<open>I2C: the receive command\<close>














subsection \<open>C9: receive after clearing RX\_DONE\<close>




subsection \<open>User Mode writes and the snoop tracker\<close>

lemma user_ready_same: "same_regs s s' \<Longrightarrow> user_ready s' fl = user_ready s fl"
  by (simp add: same_regs_def user_ready_def aspeed_smc_is_writable_def aspeed_smc_flash_mode_def
      aspeed_smc_flash_is_4byte_def)

lemma ssi_transfer_fields:
  "regs (snd (ssi_transfer v s)) = regs s" "ctrl (snd (ssi_transfer v s)) = ctrl s"
  "snoop_index (snd (ssi_transfer v s)) = snoop_index s"
  "snoop_dummies (snd (ssi_transfer v s)) = snoop_dummies s"
  "ssi_sent (spi (snd (ssi_transfer v s))) = ssi_sent (spi s) @ [v]"
  by (simp_all add: ssi_transfer_def Let_def)

lemma ssi_transfer_all_fields:
  "regs (ssi_transfer_all vs s) = regs s" "ctrl (ssi_transfer_all vs s) = ctrl s"
  "snoop_index (ssi_transfer_all vs s) = snoop_index s"
  "snoop_dummies (ssi_transfer_all vs s) = snoop_dummies s"
  "ssi_sent (spi (ssi_transfer_all vs s)) = ssi_sent (spi s) @ vs"
  by (induction vs arbitrary: s; simp add: ssi_transfer_fields)+

lemma snoop_dummy_loop_fields:
  "regs (snoop_dummy_loop n s) = regs s" "ctrl (snoop_dummy_loop n s) = ctrl s"
  "snoop_index (snoop_dummy_loop n s) = snoop_index s"
  "snoop_dummies (snoop_dummy_loop n s) = snoop_dummies s - word_of_nat n"
  "ssi_sent (spi (snoop_dummy_loop n s))
     = ssi_sent (spi s) @ replicate n (regs s R_DUMMY_DATA AND 0xff)"
  by (induction n arbitrary: s; simp add: ssi_transfer_fields replicate_append_same)+

lemma flash_write_bytes_1:
  "regs (flash_write_bytes d 1 s) = regs s" "ctrl (flash_write_bytes d 1 s) = ctrl s"
  "snoop_index (flash_write_bytes d 1 s) = snoop_index s"
  "snoop_dummies (flash_write_bytes d 1 s) = snoop_dummies s"
  "ssi_sent (spi (flash_write_bytes d 1 s)) = ssi_sent (spi s) @ [ucast (d AND 0xff)]"
  by (simp_all add: flash_write_bytes_def ssi_transfer_fields)

lemma user_write:
  assumes "user_ready s fl"
  shows "aspeed_smc_flash_write s fl a d n =
           (let (snooped, s) = aspeed_smc_do_snoop s fl d n
            in if snooped then Inr s else Inr (flash_write_bytes d n s))"
  using assms by (simp add: aspeed_smc_flash_write_def user_ready_def Let_def)

lemma do_snoop_off:
  assumes "snoop_index s = SNOOP_OFF"
  shows "aspeed_smc_do_snoop s fl d n = (False, s)"
  using assms by (simp add: aspeed_smc_do_snoop_def)

lemma do_snoop_fast_read:
  assumes "snoop_index s = SNOOP_START" and "d AND 0xff = 0x0B"
  shows "aspeed_smc_do_snoop s fl d 1 = (False, s\<lparr> snoop_dummies := 8, snoop_index := 1 \<rparr>)"
  using assms
  by (simp add: aspeed_smc_do_snoop_def Let_def SNOOP_OFF_def SNOOP_START_def
      aspeed_smc_num_dummies_def)

lemma do_snoop_address:
  assumes "user_ready s fl" and "snoop_index s = k" and "k = 1 \<or> k = 2 \<or> k = 3"
  shows "aspeed_smc_do_snoop s fl d 1 = (False, s\<lparr> snoop_index := k + 1 \<rparr>)"
  using assms
  by (auto simp: aspeed_smc_do_snoop_def Let_def SNOOP_OFF_def SNOOP_START_def user_ready_def)

lemma do_snoop_dummies:
  assumes "user_ready s fl" and "snoop_index s = 4" and "snoop_dummies s = 8"
  shows "aspeed_smc_do_snoop s fl d 1 =
           (True, (snoop_dummy_loop 8 s)\<lparr> snoop_index := SNOOP_OFF \<rparr>)"
  using assms
  by (simp add: aspeed_smc_do_snoop_def Let_def SNOOP_OFF_def SNOOP_START_def user_ready_def
      snoop_dummy_loop_fields)

lemma snoop_at_ready: "snoop_at s t k m out \<Longrightarrow> user_ready t fl = user_ready s fl"
  by (simp add: snoop_at_def user_ready_same)

lemma snoop_step_opcode:
  assumes "user_ready s fl" and "snoop_at s t SNOOP_START m out" and "d AND 0xff = 0x0B"
  shows "\<exists>t'. aspeed_smc_flash_write t fl a d 1 = Inr t' \<and> snoop_at s t' 1 8 (out @ [0x0B])"
proof -
  have r: "user_ready t fl" using assms(1,2) by (simp add: snoop_at_ready)
  have i: "snoop_index t = SNOOP_START" using assms(2) by (simp add: snoop_at_def)
  have b: "(ucast (d AND 0xff) :: 32 word) = 0x0B" unfolding assms(3) by simp
  show ?thesis
    using assms(2) unfolding user_write[OF r] do_snoop_fast_read[OF i assms(3)]
    by (simp add: snoop_at_def same_regs_def flash_write_bytes_1 b del: One_nat_def)
qed

lemma snoop_step_address:
  assumes "user_ready s fl" and "snoop_at s t k 8 out" and "k = 1 \<or> k = 2 \<or> k = 3"
  shows "\<exists>t'. aspeed_smc_flash_write t fl a d 1 = Inr t'
              \<and> snoop_at s t' (k + 1) 8 (out @ [ucast (d AND 0xff)])"
proof -
  have r: "user_ready t fl" using assms(1,2) by (simp add: snoop_at_ready)
  have i: "snoop_index t = k" using assms(2) by (simp add: snoop_at_def)
  show ?thesis
    using assms(2) unfolding user_write[OF r] do_snoop_address[OF r i assms(3)]
    by (simp add: snoop_at_def same_regs_def flash_write_bytes_1 del: One_nat_def)
qed

lemma snoop_step_dummies:
  assumes "user_ready s fl" and "snoop_at s t 4 8 out"
  shows "\<exists>t'. aspeed_smc_flash_write t fl a d 1 = Inr t'
              \<and> snoop_at s t' SNOOP_OFF 0 (out @ replicate 8 (regs s R_DUMMY_DATA AND 0xff))"
proof -
  have r: "user_ready t fl" using assms(1,2) by (simp add: snoop_at_ready)
  have i: "snoop_index t = 4" "snoop_dummies t = 8" using assms(2) by (simp_all add: snoop_at_def)
  show ?thesis
    using assms(2) unfolding user_write[OF r] do_snoop_dummies[OF r i]
    by (simp add: snoop_at_def same_regs_def snoop_dummy_loop_fields)
qed

lemma snoop_step_off:
  assumes "user_ready s fl" and "snoop_at s t SNOOP_OFF m out"
  shows "\<exists>t'. aspeed_smc_flash_write t fl a d 1 = Inr t'
              \<and> snoop_at s t' SNOOP_OFF m (out @ [ucast (d AND 0xff)])"
proof -
  have r: "user_ready t fl" using assms(1,2) by (simp add: snoop_at_ready)
  have i: "snoop_index t = SNOOP_OFF" using assms(2) by (simp add: snoop_at_def)
  show ?thesis
    using assms(2) unfolding user_write[OF r] do_snoop_off[OF i]
    by (simp add: snoop_at_def same_regs_def flash_write_bytes_1 del: One_nat_def)
qed

lemma snoop_pass_through:
  assumes "user_ready s fl" and "snoop_at s t SNOOP_OFF m out"
  shows "\<exists>t'. user_write_bytes t fl ys = Inr t'
              \<and> snoop_at s t' SNOOP_OFF m (out @ map (\<lambda>y. ucast (y AND 0xff)) ys)"
  using assms(2)
proof (induction ys arbitrary: t out)
  case Nil
  then show ?case by simp
next
  case (Cons y ys)
  from snoop_step_off[OF assms(1) Cons.prems, of 0 y]
  obtain t1 where 1: "aspeed_smc_flash_write t fl 0 y 1 = Inr t1"
    and 2: "snoop_at s t1 SNOOP_OFF m (out @ [ucast (y AND 0xff)])" by blast
  from Cons.IH[OF 2] show ?case by (simp add: 1 seq_def del: One_nat_def)
qed

subsection \<open>C7: dummy bytes of FAST\_READ in User Mode\<close>

text \<open>
  C7, as stated: after the opcode 0x0B and three address bytes, the next guest write
  causes exactly one SPI transfer of 0x5A. The snoop tracker counts dummies in cycles,
  \<open>ndummies * 8\<close>, and makes one transfer for each: the fifth guest write is replaced
  by eight transfers of 0x5A.
\<close>

theorem snoop_single_dummy_counterexample:
  "aspeed_smc_is_writable snoop_example 0
   \<and> aspeed_smc_flash_mode snoop_example 0 = CTRL_USERMODE
   \<and> \<not> aspeed_smc_flash_is_4byte snoop_example 0
   \<and> snoop_index snoop_example = SNOOP_START
   \<and> regs snoop_example R_DUMMY_DATA = 0x5A
   \<and> ssi_sent (spi snoop_example) = []
   \<and> \<not> isl (user_write_bytes snoop_example 0 [0x0B, 0x00, 0x10, 0x00, 0xEE])
   \<and> ssi_sent (spi (projr (user_write_bytes snoop_example 0 [0x0B, 0x00, 0x10, 0x00, 0xEE])))
        = [0x0B, 0x00, 0x10, 0x00, 0x5A, 0x5A, 0x5A, 0x5A, 0x5A, 0x5A, 0x5A, 0x5A]"
  by code_simp

text \<open>
  C7, amended: in User Mode on a chip select that is write-enabled in CONF, with the
  snoop tracker at SNOOP\_START, DUMMY\_DATA = 0x5A and 3-byte addresses: after the
  single-byte guest writes of the opcode 0x0B and of three address bytes, the model has
  transferred exactly the opcode and the three address bytes; the next guest write
  causes exactly eight SPI transfers of 0x5A, which replace that guest byte; every
  later guest write is passed to the SPI bus unchanged.
\<close>

theorem snoop_fast_read_dummies:
  assumes ready: "aspeed_smc_is_writable s fl" "aspeed_smc_flash_mode s fl = CTRL_USERMODE"
                 "\<not> aspeed_smc_flash_is_4byte s fl"
      and start: "snoop_index s = SNOOP_START"
      and dummy: "regs s R_DUMMY_DATA = 0x5A"
  shows "\<exists>s4 s5 s6.
           user_write_bytes s fl [0x0B, a1, a2, a3] = Inr s4
         \<and> ssi_sent (spi s4) = ssi_sent (spi s)
              @ [0x0B, ucast (a1 AND 0xff), ucast (a2 AND 0xff), ucast (a3 AND 0xff)]
         \<and> aspeed_smc_flash_write s4 fl a x 1 = Inr s5
         \<and> ssi_sent (spi s5) = ssi_sent (spi s4) @ replicate 8 0x5A
         \<and> user_write_bytes s5 fl ys = Inr s6
         \<and> ssi_sent (spi s6) = ssi_sent (spi s5) @ map (\<lambda>y. ucast (y AND 0xff)) ys"
proof -
  have r: "user_ready s fl" using ready by (simp add: user_ready_def)
  have 0: "snoop_at s s SNOOP_START (snoop_dummies s) []"
    using start by (simp add: snoop_at_def same_regs_def)
  from snoop_step_opcode[OF r 0, of "0x0B" 0]
  obtain t1 where w1: "aspeed_smc_flash_write s fl 0 0x0B 1 = Inr t1"
    and t1: "snoop_at s t1 1 8 [0x0B]" by auto
  from snoop_step_address[OF r t1, of 0 a1]
  obtain t2 where w2: "aspeed_smc_flash_write t1 fl 0 a1 1 = Inr t2"
    and t2: "snoop_at s t2 2 8 [0x0B, ucast (a1 AND 0xff)]" by auto
  from snoop_step_address[OF r t2, of 0 a2]
  obtain t3 where w3: "aspeed_smc_flash_write t2 fl 0 a2 1 = Inr t3"
    and t3: "snoop_at s t3 3 8 [0x0B, ucast (a1 AND 0xff), ucast (a2 AND 0xff)]" by auto
  from snoop_step_address[OF r t3, of 0 a3]
  obtain t4 where w4: "aspeed_smc_flash_write t3 fl 0 a3 1 = Inr t4"
    and t4: "snoop_at s t4 4 8
               [0x0B, ucast (a1 AND 0xff), ucast (a2 AND 0xff), ucast (a3 AND 0xff)]" by auto
  from snoop_step_dummies[OF r t4, of a x]
  obtain t5 where w5: "aspeed_smc_flash_write t4 fl a x 1 = Inr t5"
    and t5: "snoop_at s t5 SNOOP_OFF 0
               ([0x0B, ucast (a1 AND 0xff), ucast (a2 AND 0xff), ucast (a3 AND 0xff)]
                  @ replicate 8 (regs s R_DUMMY_DATA AND 0xff))" by auto
  from snoop_pass_through[OF r t5, of ys]
  obtain t6 where w6: "user_write_bytes t5 fl ys = Inr t6"
    and t6: "snoop_at s t6 SNOOP_OFF 0
               (([0x0B, ucast (a1 AND 0xff), ucast (a2 AND 0xff), ucast (a3 AND 0xff)]
                  @ replicate 8 (regs s R_DUMMY_DATA AND 0xff))
                @ map (\<lambda>y. ucast (y AND 0xff)) ys)" by auto
  have u4: "user_write_bytes s fl [0x0B, a1, a2, a3] = Inr t4"
    by (simp add: w1 w2 w3 w4 seq_def del: One_nat_def)
  have d: "regs s R_DUMMY_DATA AND 0xff = 0x5A" unfolding dummy by simp
  show ?thesis
    using u4 w5 w6 t4 t5 t6 unfolding d
    by (intro exI[of _ t4] exI[of _ t5] exI[of _ t6]) (simp add: snoop_at_def)
qed

theorem snoop_fast_read_dummies_witness:
  "aspeed_smc_is_writable snoop_example 0
   \<and> aspeed_smc_flash_mode snoop_example 0 = CTRL_USERMODE
   \<and> \<not> aspeed_smc_flash_is_4byte snoop_example 0
   \<and> snoop_index snoop_example = SNOOP_START
   \<and> regs snoop_example R_DUMMY_DATA = 0x5A
   \<and> (\<exists>s4 s5 s6.
           user_write_bytes snoop_example 0 [0x0B, 0x00, 0x10, 0x00] = Inr s4
         \<and> ssi_sent (spi s4) = [0x0B, 0x00, 0x10, 0x00]
         \<and> aspeed_smc_flash_write s4 0 0 0xEE 1 = Inr s5
         \<and> ssi_sent (spi s5) = ssi_sent (spi s4) @ replicate 8 0x5A
         \<and> user_write_bytes s5 0 [0x11, 0x22] = Inr s6
         \<and> ssi_sent (spi s6) = ssi_sent (spi s5) @ [0x11, 0x22])"
proof -
  have h1: "aspeed_smc_is_writable snoop_example 0" by code_simp
  have h2: "aspeed_smc_flash_mode snoop_example 0 = CTRL_USERMODE" by code_simp
  have h3: "\<not> aspeed_smc_flash_is_4byte snoop_example 0" by code_simp
  have h4: "snoop_index snoop_example = SNOOP_START" by code_simp
  have h5: "regs snoop_example R_DUMMY_DATA = 0x5A" by code_simp
  have e: "ssi_sent (spi snoop_example) = []" by code_simp
  from snoop_fast_read_dummies[OF h1 h2 h3 h4 h5, of "0x00" "0x10" "0x00" 0 "0xEE" "[0x11, 0x22]"]
  show ?thesis using h1 h2 h3 h4 h5 unfolding e by simp
qed

subsection \<open>The DMA checksum loop\<close>

lemma only_regs_differ_refl: "only_regs_differ s s" by (simp add: only_regs_differ_def)

lemma only_regs_differ_trans:
  "only_regs_differ s t \<Longrightarrow> only_regs_differ t u \<Longrightarrow> only_regs_differ s u"
  unfolding only_regs_differ_def
  by (metis AspeedSMCState.surjective AspeedSMCState.update_convs(7))

lemma only_regs_differ_set_reg: "only_regs_differ s (set_reg i v s)"
  by (simp add: only_regs_differ_def set_reg_def)

lemma only_regs_differD:
  assumes "only_regs_differ s s'"
  shows "ctrl s' = ctrl s" "irq s' = irq s" "num_cs s' = num_cs s" "flash_as s' = flash_as s"
    "dram_as s' = dram_as s" "inject_failure s' = inject_failure s" "qemu_log s' = qemu_log s"
    "flashes s' = flashes s" "spi s' = spi s" "snoop_index s' = snoop_index s"
    "snoop_dummies s' = snoop_dummies s" "cs_lines s' = cs_lines s" "sdram_base s' = sdram_base s"
  using assms unfolding only_regs_differ_def
  by (metis AspeedSMCState.select_convs AspeedSMCState.surjective AspeedSMCState.update_convs(7))+

lemma len_word_nonzero:
  assumes "Suc n < 2 ^ 30"
  shows "(4 * word_of_nat (Suc n) :: 32 word) \<noteq> 0"
proof -
  define m where "m = 4 * Suc n"
  have m: "0 < m" "m < 2 ^ 32" using assms by (simp_all add: m_def)
  have e: "(4 * word_of_nat (Suc n) :: 32 word) = word_of_nat m" by (simp add: m_def)
  have "unat (word_of_nat m :: 32 word) = m" using m(2) by (simp add: unat_of_nat)
  then have "unat (word_of_nat m :: 32 word) \<noteq> 0" using m(1) by simp
  then have "(word_of_nat m :: 32 word) \<noteq> 0" by (simp add: unat_eq_0)
  then show ?thesis unfolding e .
qed

lemma dma_checksum_loop_sum:
  assumes "regs s R_DMA_LEN = 4 * word_of_nat n" and "n < 2 ^ 30"
      and "length F = n"
      and "\<forall>i < n. flash_as s (regs s R_DMA_FLASH_ADDR + 4 * word_of_nat i) = Some (F ! i)"
  shows "\<exists>s'. dma_checksum_loop s = Some (True, s') \<and> only_regs_differ s s'
          \<and> regs s' = (regs s)(R_DMA_CHECKSUM := regs s R_DMA_CHECKSUM + sum_list F,
                                R_DMA_FLASH_ADDR := regs s R_DMA_FLASH_ADDR + 4 * word_of_nat n,
                                R_DMA_LEN := 0)"
  using assms
proof (induction n arbitrary: s F)
  case 0
  then have "regs s R_DMA_LEN = 0" "F = []" by simp_all
  then show ?case
    by (subst dma_checksum_loop.simps) (auto simp: only_regs_differ_refl)
next
  case (Suc n)
  from Suc.prems(3) obtain d F' where F: "F = d # F'" and lF': "length F' = n"
    by (cases F) auto
  have nz: "regs s R_DMA_LEN \<noteq> 0"
    unfolding Suc.prems(1) using Suc.prems(2) by (intro len_word_nonzero)
  have rd: "address_space_ldl_le (flash_as s) (regs s R_DMA_FLASH_ADDR) = Some d"
    using Suc.prems(4)[rule_format, of 0] by (simp add: address_space_ldl_le_def F)
  define t where "t = set_reg R_DMA_LEN (regs s R_DMA_LEN - 4)
                (set_reg R_DMA_FLASH_ADDR (regs s R_DMA_FLASH_ADDR + 4)
                  (set_reg R_DMA_CHECKSUM (regs s R_DMA_CHECKSUM + d) s))"
  have st: "only_regs_differ s t" unfolding t_def
    by (blast intro: only_regs_differ_trans only_regs_differ_set_reg)
  have rt: "regs t = (regs s)(R_DMA_CHECKSUM := regs s R_DMA_CHECKSUM + d,
                              R_DMA_FLASH_ADDR := regs s R_DMA_FLASH_ADDR + 4,
                              R_DMA_LEN := regs s R_DMA_LEN - 4)"
    by (simp add: t_def set_reg_def)
  have step: "dma_checksum_loop s = dma_checksum_loop t"
    by (subst dma_checksum_loop.simps) (simp add: nz rd t_def)
  have 1: "regs t R_DMA_LEN = 4 * word_of_nat n"
    by (simp add: rt Suc.prems(1) algebra_simps)
  have 2: "n < 2 ^ 30" using Suc.prems(2) by simp
  have 3: "\<forall>i < n. flash_as t (regs t R_DMA_FLASH_ADDR + 4 * word_of_nat i) = Some (F' ! i)"
  proof (intro allI impI)
    fix i assume "i < n"
    then have "flash_as s (regs s R_DMA_FLASH_ADDR + 4 * word_of_nat (Suc i)) = Some (F ! Suc i)"
      using Suc.prems(4)[rule_format, of "Suc i"] by (simp del: of_nat_Suc)
    then show "flash_as t (regs t R_DMA_FLASH_ADDR + 4 * word_of_nat i) = Some (F' ! i)"
      by (simp add: rt only_regs_differD(4)[OF st] F R_DMA_FLASH_ADDR_def R_DMA_LEN_def
          R_DMA_CHECKSUM_def algebra_simps)
  qed
  from Suc.IH[OF 1 2 lF' 3] obtain s' where l: "dma_checksum_loop t = Some (True, s')"
    and d': "only_regs_differ t s'"
    and r': "regs s' = (regs t)(R_DMA_CHECKSUM := regs t R_DMA_CHECKSUM + sum_list F',
                                R_DMA_FLASH_ADDR := regs t R_DMA_FLASH_ADDR + 4 * word_of_nat n,
                                R_DMA_LEN := 0)" by blast
  have "regs s' = (regs s)(R_DMA_CHECKSUM := regs s R_DMA_CHECKSUM + sum_list F,
                                R_DMA_FLASH_ADDR := regs s R_DMA_FLASH_ADDR + 4 * word_of_nat (Suc n),
                                R_DMA_LEN := 0)"
    unfolding r' rt F
    by (auto simp: fun_eq_iff R_DMA_FLASH_ADDR_def R_DMA_LEN_def R_DMA_CHECKSUM_def algebra_simps)
  with l d' st show ?case unfolding step by (blast intro: only_regs_differ_trans)
qed

lemma write_dma_ctrl_dispatch:
  assumes c: "ctrl s \<in> set controllers" and d: "has_dma (ctrl s)"
      and n: "num_cs s \<le> max_slaves (ctrl s)"
  shows "aspeed_smc_write s 0x80 data = aspeed_smc_dma_ctrl s (ucast data)"
proof -
  have L: "r_conf (ctrl s) = 0" "r_ctrl0 (ctrl s) = 1 \<or> r_ctrl0 (ctrl s) = 4"
      "max_slaves (ctrl s) \<le> 5" "r_timings (ctrl s) = 37 \<or> r_timings (ctrl s) = 5"
      "r_ce_ctrl (ctrl s) = 1 \<or> r_ce_ctrl (ctrl s) = 255"
    using controllers_layout[OF c] by simp_all
  show ?thesis
    unfolding aspeed_smc_write_def Let_def
    using L n d by (auto simp: reg_index_defs)
qed

lemma intr_ctrl_bits:
  fixes x :: "32 word"
  shows "(x OR INTR_CTRL_DMA_STATUS) AND INTR_CTRL_DMA_EN = x AND INTR_CTRL_DMA_EN"
    and "(x OR INTR_CTRL_DMA_STATUS) AND INTR_CTRL_DMA_STATUS \<noteq> 0"
proof -
  show "(x OR INTR_CTRL_DMA_STATUS) AND INTR_CTRL_DMA_EN = x AND INTR_CTRL_DMA_EN"
    by (simp add: bit.conj_disj_distrib2 INTR_CTRL_DMA_STATUS_def INTR_CTRL_DMA_EN_def)
  have "bit ((x OR INTR_CTRL_DMA_STATUS) AND INTR_CTRL_DMA_STATUS) 11"
    unfolding INTR_CTRL_DMA_STATUS_def by (simp add: bit_simps)
  then show "(x OR INTR_CTRL_DMA_STATUS) AND INTR_CTRL_DMA_STATUS \<noteq> 0" by auto
qed

subsection \<open>C1: DMA checksum\<close>

text \<open>
  C1, as stated: every write to DMA\_CTRL with ENABLE and CKSUM set (WRITE and CALIB
  clear, no failure injection, DMA\_CHECKSUM = 0, DMA\_LEN = 4n, reads that succeed)
  leaves the sum of the words in DMA\_CHECKSUM, DMA\_LEN at 0 and the DMA status bit
  set. While a DMA counts as in progress (ENABLE set in DMA\_CTRL and the status bit
  clear in INTR\_CTRL) the write is refused: nothing is read and no register changes.
\<close>

theorem dma_checksum_in_progress_counterexample:
  "has_dma (ctrl dma_busy_example) \<and> \<not> inject_failure dma_busy_example
   \<and> (0x5 :: 32 word) AND DMA_CTRL_ENABLE \<noteq> 0 \<and> (0x5 :: 32 word) AND DMA_CTRL_CKSUM \<noteq> 0
   \<and> (0x5 :: 32 word) AND DMA_CTRL_WRITE = 0 \<and> (0x5 :: 32 word) AND DMA_CTRL_CALIB = 0
   \<and> regs dma_busy_example R_DMA_CHECKSUM = 0
   \<and> regs dma_busy_example R_DMA_LEN = 8
   \<and> flash_as dma_busy_example (regs dma_busy_example R_DMA_FLASH_ADDR) = Some 0x11223344
   \<and> flash_as dma_busy_example (regs dma_busy_example R_DMA_FLASH_ADDR + 4) = Some 0xF0000000
   \<and> \<not> isl (aspeed_smc_write dma_busy_example 0x80 0x5)
   \<and> regs (projr (aspeed_smc_write dma_busy_example 0x80 0x5)) R_DMA_CHECKSUM = 0
   \<and> regs (projr (aspeed_smc_write dma_busy_example 0x80 0x5)) R_DMA_LEN = 8
   \<and> regs (projr (aspeed_smc_write dma_busy_example 0x80 0x5)) R_INTR_CTRL
         AND INTR_CTRL_DMA_STATUS = 0"
  by code_simp

text \<open>
  C1, amended: for every controller with DMA support, when no DMA is in progress
  (DMA\_CTRL has ENABLE clear or INTR\_CTRL has the DMA status bit set), a write to
  DMA\_CTRL with ENABLE and CKSUM set, WRITE and CALIB clear and failure injection off,
  starting with DMA\_CHECKSUM = 0 and DMA\_LEN = 4n, where the n reads of the flash
  address space succeed and return the words F[0..n), leaves DMA\_CHECKSUM equal to
  the sum of the F[i] modulo 2^32, DMA\_FLASH\_ADDR advanced by 4n, DMA\_LEN = 0 and the
  DMA status bit of INTR\_CTRL set; the interrupt line of the controller is raised if
  the DMA\_EN bit of INTR\_CTRL was set and is left as it was otherwise.
\<close>

theorem dma_checksum_result:
  assumes c: "ctrl s \<in> set controllers" "has_dma (ctrl s)" "num_cs s \<le> max_slaves (ctrl s)"
      and v: "(ucast data :: 32 word) AND DMA_CTRL_ENABLE \<noteq> 0"
             "(ucast data :: 32 word) AND DMA_CTRL_CKSUM \<noteq> 0"
             "(ucast data :: 32 word) AND DMA_CTRL_WRITE = 0"
             "(ucast data :: 32 word) AND DMA_CTRL_CALIB = 0"
      and inj: "\<not> inject_failure s"
      and idle: "\<not> aspeed_smc_dma_in_progress s"
      and sum0: "regs s R_DMA_CHECKSUM = 0"
      and len: "regs s R_DMA_LEN = 4 * word_of_nat n" "n < 2 ^ 30"
      and F: "length F = n"
             "\<forall>i < n. flash_as s (regs s R_DMA_FLASH_ADDR + 4 * word_of_nat i) = Some (F ! i)"
  shows "\<exists>s'. aspeed_smc_write s 0x80 data = Inr s'
           \<and> regs s' R_DMA_CHECKSUM = sum_list F
           \<and> regs s' R_DMA_FLASH_ADDR = regs s R_DMA_FLASH_ADDR + 4 * word_of_nat n
           \<and> regs s' R_DMA_LEN = 0
           \<and> regs s' R_INTR_CTRL AND INTR_CTRL_DMA_STATUS \<noteq> 0
           \<and> (irq s' \<longleftrightarrow> irq s \<or> regs s R_INTR_CTRL AND INTR_CTRL_DMA_EN \<noteq> 0)"
proof -
  define w where "w = (ucast data :: 32 word)"
  define s1 where "s1 = set_reg R_DMA_CTRL w s"
  have d1: "only_regs_differ s s1" unfolding s1_def by (rule only_regs_differ_set_reg)
  have r1: "regs s1 = (regs s)(R_DMA_CTRL := w)" by (simp add: s1_def set_reg_def)
  have 1: "regs s1 R_DMA_LEN = 4 * word_of_nat n"
    using len(1) by (simp add: r1 reg_index_defs)
  have 2: "\<forall>i < n. flash_as s1 (regs s1 R_DMA_FLASH_ADDR + 4 * word_of_nat i) = Some (F ! i)"
    using F(2) by (simp add: r1 only_regs_differD(4)[OF d1] reg_index_defs)
  from dma_checksum_loop_sum[OF 1 len(2) F(1) 2]
  obtain s2 where l: "dma_checksum_loop s1 = Some (True, s2)" and d2: "only_regs_differ s1 s2"
    and r2: "regs s2 = (regs s1)(R_DMA_CHECKSUM := regs s1 R_DMA_CHECKSUM + sum_list F,
                                R_DMA_FLASH_ADDR := regs s1 R_DMA_FLASH_ADDR + 4 * word_of_nat n,
                                R_DMA_LEN := 0)" by blast
  have d02: "only_regs_differ s s2" using d1 d2 by (rule only_regs_differ_trans)
  have ck: "aspeed_smc_dma_checksum s1 = Inr s2"
    unfolding aspeed_smc_dma_checksum_def Let_def
    using v(3,4) inj
    by (simp add: r1 w_def[symmetric] l only_regs_differD(6)[OF d02])
  have "aspeed_smc_dma_ctrl s w = Inr (aspeed_smc_dma_done s2)"
    unfolding aspeed_smc_dma_ctrl_def Let_def s1_def[symmetric]
    using v(1,2) idle by (simp add: w_def[symmetric] r1 ck seq_def)
  then have W: "aspeed_smc_write s 0x80 data = Inr (aspeed_smc_dma_done s2)"
    unfolding write_dma_ctrl_dispatch[OF c] w_def .
  have R: "regs (aspeed_smc_dma_done s2)
             = (regs s2)(R_INTR_CTRL := regs s2 R_INTR_CTRL OR INTR_CTRL_DMA_STATUS)"
    by (simp add: aspeed_smc_dma_done_def Let_def set_reg_def)
  have I: "irq (aspeed_smc_dma_done s2)
             = (irq s \<or> regs s R_INTR_CTRL AND INTR_CTRL_DMA_EN \<noteq> 0)"
    by (simp add: aspeed_smc_dma_done_def Let_def set_reg_def intr_ctrl_bits(1)
        only_regs_differD(2)[OF d02] r2 r1 reg_index_defs)
  show ?thesis
    unfolding W
    using sum0 by (intro exI[of _ "aspeed_smc_dma_done s2"])
       (simp add: R I r2 r1 INTR_CTRL_DMA_STATUS_def reg_index_defs)
qed

theorem dma_checksum_result_witness:
  "ctrl dma_idle_example \<in> set controllers \<and> has_dma (ctrl dma_idle_example)
   \<and> \<not> inject_failure dma_idle_example \<and> \<not> aspeed_smc_dma_in_progress dma_idle_example
   \<and> regs dma_idle_example R_DMA_CHECKSUM = 0
   \<and> regs dma_idle_example R_DMA_LEN = 4 * word_of_nat 2
   \<and> (\<exists>s'. aspeed_smc_write dma_idle_example 0x80 0x5 = Inr s'
           \<and> regs s' R_DMA_CHECKSUM = 0x01223344
           \<and> regs s' R_DMA_FLASH_ADDR = 0x20000008
           \<and> regs s' R_DMA_LEN = 0
           \<and> regs s' R_INTR_CTRL AND INTR_CTRL_DMA_STATUS \<noteq> 0
           \<and> \<not> irq s')"
proof -
  have c: "ctrl dma_idle_example = fmc_ast2400" by code_simp
  have h1: "ctrl dma_idle_example \<in> set controllers" unfolding c by (simp add: controllers_def)
  have h2: "has_dma (ctrl dma_idle_example)" unfolding c by (simp add: fmc_ast2400_def)
  have h3: "num_cs dma_idle_example \<le> max_slaves (ctrl dma_idle_example)" by code_simp
  have v: "(ucast (0x5 :: 64 word) :: 32 word) AND DMA_CTRL_ENABLE \<noteq> 0"
          "(ucast (0x5 :: 64 word) :: 32 word) AND DMA_CTRL_CKSUM \<noteq> 0"
          "(ucast (0x5 :: 64 word) :: 32 word) AND DMA_CTRL_WRITE = 0"
          "(ucast (0x5 :: 64 word) :: 32 word) AND DMA_CTRL_CALIB = 0"
    by (simp_all add: DMA_CTRL_ENABLE_def DMA_CTRL_CKSUM_def DMA_CTRL_WRITE_def DMA_CTRL_CALIB_def)
  have h4: "\<not> inject_failure dma_idle_example" by code_simp
  have h5: "\<not> aspeed_smc_dma_in_progress dma_idle_example" by code_simp
  have h6: "regs dma_idle_example R_DMA_CHECKSUM = 0" by code_simp
  have h7: "regs dma_idle_example R_DMA_LEN = 4 * word_of_nat 2" by code_simp
  have a: "regs dma_idle_example R_DMA_FLASH_ADDR = 0x20000000" by code_simp
  have f0: "flash_as dma_idle_example (regs dma_idle_example R_DMA_FLASH_ADDR + 4 * word_of_nat 0)
              = Some ([0x11223344, 0xF0000000] ! 0)" by code_simp
  have f1: "flash_as dma_idle_example (regs dma_idle_example R_DMA_FLASH_ADDR + 4 * word_of_nat 1)
              = Some ([0x11223344, 0xF0000000] ! 1)" by code_simp
  have i: "\<not> irq dma_idle_example" "regs dma_idle_example R_INTR_CTRL = 0" by code_simp+
  have h8: "\<forall>i < 2. flash_as dma_idle_example
                (regs dma_idle_example R_DMA_FLASH_ADDR + 4 * word_of_nat i)
              = Some ([0x11223344, 0xF0000000] ! i)"
  proof (intro allI impI)
    fix i :: nat assume "i < 2"
    then have "i = 0 \<or> i = 1" by auto
    then show "flash_as dma_idle_example
                (regs dma_idle_example R_DMA_FLASH_ADDR + 4 * word_of_nat i)
              = Some ([0x11223344, 0xF0000000] ! i)"
      using f0 f1 by auto
  qed
  have e: "sum_list [0x11223344, 0xF0000000 :: 32 word] = 0x01223344" by code_simp
  from dma_checksum_result[OF h1 h2 h3 v h4 h5 h6 h7 _ _ h8, unfolded e a i]
  obtain s' where "aspeed_smc_write dma_idle_example 0x80 0x5 = Inr s'"
    "regs s' R_DMA_CHECKSUM = 0x01223344" "regs s' R_DMA_FLASH_ADDR = 0x20000008"
    "regs s' R_DMA_LEN = 0" "regs s' R_INTR_CTRL AND INTR_CTRL_DMA_STATUS \<noteq> 0" "\<not> irq s'"
    using i by (auto simp: INTR_CTRL_DMA_EN_def)
  then show ?thesis using h1 h2 h4 h5 h6 h7 by blast
qed

end
